theory Spec2Isabelle
  imports Main
begin

section \<open>Data model\<close>

text \<open>
  The abacus trainer builds exercises: a start value, an ordered list of signed actions and
  an answer. States and actions are JavaScript numbers that only ever hold integers here,
  so they are modelled as \<open>int\<close>.
\<close>

record step =
  action :: int
  fromState :: int
  toState :: int

record example =
  start :: int
  steps :: "step list"
  answer :: int

text \<open>
  The object handed to a rule constructor. Every field may be absent (\<open>None\<close>), which is
  what the \<open>??\<close> defaults and the \<open>Array.isArray\<close> tests of the constructors look at.
  \<open>raw_simpleDigits\<close> is \<open>config.blocks?.simple?.digits\<close>.
\<close>

record raw_config =
  raw_selectedDigits :: "int list option"
  raw_includeFive :: "bool option"
  raw_minSteps :: "int option"
  raw_maxSteps :: "int option"
  raw_onlyAddition :: "bool option"
  raw_onlySubtraction :: "bool option"
  raw_digitCount :: "int option"
  raw_combineLevels :: "bool option"
  raw_simpleDigits :: "int list option"

text \<open>The fields of \<open>this.config\<close> that the rules and the generators read.\<close>

record config =
  selectedDigits :: "int list"
  simpleBlockDigits :: "int list"
  minState :: int
  maxState :: int
  minSteps :: int
  maxSteps :: int
  onlyAddition :: bool
  onlySubtraction :: bool
  digitCount :: int
  combineLevels :: bool

datatype step_type = TUpper | TLower | TSimple | TFriend | TBrother

record micro_step =
  ms_action :: int
  ms_type :: step_type

text \<open>
  A rule instance: its configuration, its technique digits and the table built once by the
  constructor. The string keys \<open>"v-vNext-brotherN"\<close> of the JavaScript sets are modelled
  by the triples \<open>(v, vNext, n)\<close> they print (the tables only hold non-negative
  \<open>v\<close> and \<open>vNext\<close>, so two keys are equal exactly when the triples are).
\<close>

datatype rule =
    UnifiedSimple config
  | Brothers config (brothersDigits: "int list") (brotherPairs: "(int \<times> int \<times> int) list")
  | Friends config (friendsDigits: "int list") (friendPairs: "(int \<times> int \<times> int) list")
  | Mix config (mixDigits: "int list") (mixCombinations: "int \<rightharpoonup> micro_step list")

fun config_of :: "rule \<Rightarrow> config" where
  "config_of (UnifiedSimple c) = c"
| "config_of (Brothers c ds ps) = c"
| "config_of (Friends c ds ps) = c"
| "config_of (Mix c ds m) = c"

section \<open>Rule constructors\<close>

definition orElse :: "'a option \<Rightarrow> 'a \<Rightarrow> 'a" where
  "orElse x d = (case x of None \<Rightarrow> d | Some v \<Rightarrow> v)"

definition digitsIn :: "int \<Rightarrow> int \<Rightarrow> int list \<Rightarrow> int list" where
  "digitsIn lo hi ds = filter (\<lambda>n. lo \<le> n \<and> n \<le> hi) ds"

definition simpleBlockOf :: "raw_config \<Rightarrow> int list" where
  "simpleBlockOf rc =
     (case raw_simpleDigits rc of Some ds \<Rightarrow> digitsIn 1 9 ds | None \<Rightarrow> [1, 2, 3, 4, 5])"

definition UnifiedSimpleRule :: "raw_config \<Rightarrow> rule" where
  "UnifiedSimpleRule rc =
     (let sel = (case raw_selectedDigits rc of Some ds \<Rightarrow> digitsIn 1 9 ds | None \<Rightarrow> [1, 2, 3, 4]);
          includeFive = (list_ex (\<lambda>d. d \<ge> 5) sel \<or> raw_includeFive rc = Some True)
      in UnifiedSimple \<lparr>
           selectedDigits = sel,
           simpleBlockDigits = [],
           minState = 0,
           maxState = (if includeFive then 9 else 4),
           minSteps = orElse (raw_minSteps rc) 3,
           maxSteps = orElse (raw_maxSteps rc) 7,
           onlyAddition = orElse (raw_onlyAddition rc) False,
           onlySubtraction = orElse (raw_onlySubtraction rc) False,
           digitCount = orElse (raw_digitCount rc) 1,
           combineLevels = orElse (raw_combineLevels rc) False \<rparr>)"

text \<open>The shared part of the configuration of the three compensation rules.\<close>

definition techConfig :: "raw_config \<Rightarrow> int \<Rightarrow> int \<Rightarrow> config" where
  "techConfig rc maxS defaultDigitCount = \<lparr>
     selectedDigits = orElse (raw_selectedDigits rc) [],
     simpleBlockDigits = simpleBlockOf rc,
     minState = 0,
     maxState = maxS,
     minSteps = orElse (raw_minSteps rc) 3,
     maxSteps = orElse (raw_maxSteps rc) 7,
     onlyAddition = orElse (raw_onlyAddition rc) False,
     onlySubtraction = orElse (raw_onlySubtraction rc) False,
     digitCount = orElse (raw_digitCount rc) defaultDigitCount,
     combineLevels = orElse (raw_combineLevels rc) False \<rparr>"

subsection \<open>Brothers\<close>

definition getBrother :: "int \<Rightarrow> int" where
  "getBrother n = 5 - n"

definition upperBead :: "int \<Rightarrow> int" where
  "upperBead v = (if v \<ge> 5 then 1 else 0)"

definition lowerBeads :: "int \<Rightarrow> int" where
  "lowerBeads v = (if v \<ge> 5 then v - 5 else v)"

definition buildBrotherPairs :: "int list \<Rightarrow> (int \<times> int \<times> int) list" where
  "buildBrotherPairs digits = concat (map (\<lambda>n.
       [(v, v + n, n). v \<leftarrow> [0..9],
          v + n \<ge> 0 \<and> v + n \<le> 9 \<and> upperBead v = 0 \<and> lowerBeads v + 5 \<ge> getBrother n]
     @ [(v, v - n, n). v \<leftarrow> [0..9],
          v - n \<ge> 0 \<and> v - n \<le> 9 \<and> upperBead v = 1 \<and> lowerBeads v - 5 + getBrother n \<ge> 0
            \<and> lowerBeads v - 5 + getBrother n \<le> 4]) digits)"

definition BrothersRule :: "raw_config \<Rightarrow> rule" where
  "BrothersRule rc =
     (let ds = (case raw_selectedDigits rc of Some xs \<Rightarrow> digitsIn 1 4 xs | None \<Rightarrow> [4])
      in Brothers (techConfig rc 9 1) ds (buildBrotherPairs ds))"

subsection \<open>Friends\<close>

definition getFriend :: "int \<Rightarrow> int" where
  "getFriend n = 10 - n"

text \<open>
  \<open>v % 10\<close> is only taken of \<open>v\<close> in \<open>[0, 99]\<close> while the table is built; in the Mix
  classifier it is taken of any state, so the truncating remainder of JavaScript is
  written out.
\<close>

definition jsRem :: "int \<Rightarrow> int \<Rightarrow> int" where
  "jsRem a b = sgn a * (\<bar>a\<bar> mod \<bar>b\<bar>)"

definition buildFriendPairs :: "int list \<Rightarrow> (int \<times> int \<times> int) list" where
  "buildFriendPairs digits = concat (map (\<lambda>n.
       [(v, v + n, n). v \<leftarrow> [0..99],
          v + n \<ge> 0 \<and> v + n \<le> 99 \<and> jsRem v 10 + n \<ge> 10 \<and> v div 10 < 9]
     @ [(v, v - n, n). v \<leftarrow> [0..99],
          v - n \<ge> 0 \<and> v - n \<le> 99 \<and> jsRem v 10 < n \<and> v div 10 > 0]) digits)"

definition FriendsRule :: "raw_config \<Rightarrow> rule" where
  "FriendsRule rc =
     (let ds = (case raw_selectedDigits rc of Some xs \<Rightarrow> digitsIn 1 9 xs | None \<Rightarrow> [9])
      in Friends (techConfig rc 99 2) ds (buildFriendPairs ds))"

subsection \<open>Mix\<close>

text \<open>
  \<open>_buildMixCombinations\<close> stores, for every digit \<open>n\<close>, the micro-steps of \<open>+n\<close> under
  the key \<open>n\<close> and those of \<open>-n\<close> under the key \<open>-n\<close>.
\<close>

definition mixEntry :: "int \<Rightarrow> (int \<rightharpoonup> micro_step list) \<Rightarrow> (int \<rightharpoonup> micro_step list)" where
  "mixEntry n m =
     (let friend = getFriend n in
      (m(n \<mapsto> [\<lparr>ms_action = 10, ms_type = TFriend\<rparr>,
                \<lparr>ms_action = - 5, ms_type = TBrother\<rparr>,
                \<lparr>ms_action = - (friend - 5), ms_type = TSimple\<rparr>]))
        (- n \<mapsto> [\<lparr>ms_action = - 10, ms_type = TFriend\<rparr>,
                  \<lparr>ms_action = 5, ms_type = TBrother\<rparr>,
                  \<lparr>ms_action = friend - 5, ms_type = TSimple\<rparr>]))"

definition buildMixCombinations :: "int list \<Rightarrow> (int \<rightharpoonup> micro_step list)" where
  "buildMixCombinations digits = fold mixEntry digits Map.empty"

definition MixRule :: "raw_config \<Rightarrow> rule" where
  "MixRule rc =
     (let ds = (case raw_selectedDigits rc of Some xs \<Rightarrow> digitsIn 6 9 xs | None \<Rightarrow> [6, 7, 8, 9])
      in Mix (techConfig rc 99 2) ds (buildMixCombinations ds))"

section \<open>Signature transitions\<close>

definition isBrotherTransition :: "int list \<Rightarrow> (int \<times> int \<times> int) list \<Rightarrow> int \<Rightarrow> int \<Rightarrow> bool" where
  "isBrotherTransition digits pairs from to =
     (case find (\<lambda>n. \<bar>to - from\<bar> = n) digits of
        Some n \<Rightarrow> (from, to, n) \<in> set pairs
      | None \<Rightarrow> False)"

definition isFriendTransition :: "int list \<Rightarrow> (int \<times> int \<times> int) list \<Rightarrow> int \<Rightarrow> int \<Rightarrow> bool" where
  "isFriendTransition digits pairs from to =
     (case find (\<lambda>n. \<bar>to - from\<bar> = n) digits of
        Some n \<Rightarrow> (from, to, n) \<in> set pairs
      | None \<Rightarrow> False)"

definition isMixTransition :: "(int \<rightharpoonup> micro_step list) \<Rightarrow> int \<Rightarrow> int \<Rightarrow> bool" where
  "isMixTransition combos from to =
     (let delta = to - from in
      if combos delta \<noteq> None then
        (let fromUnits = jsRem from 10; fromTens = from div 10 in
         if delta > 0 then
           fromUnits + delta \<ge> 10 \<and> fromTens < 9 \<and> getFriend delta > 5
         else if delta < 0 then
           fromUnits < \<bar>delta\<bar> \<and> fromTens > 0 \<and> getFriend \<bar>delta\<bar> > 5
         else False)
      else False)"

text \<open>The classifier of a rule (\<open>Simple\<close> has none).\<close>

fun isSignatureTransition :: "rule \<Rightarrow> int \<Rightarrow> int \<Rightarrow> bool" where
  "isSignatureTransition (UnifiedSimple c) from to = False"
| "isSignatureTransition (Brothers c ds ps) from to = isBrotherTransition ds ps from to"
| "isSignatureTransition (Friends c ds ps) from to = isFriendTransition ds ps from to"
| "isSignatureTransition (Mix c ds m) from to = isMixTransition m from to"

section \<open>Available actions\<close>

definition inRange :: "int \<Rightarrow> int \<Rightarrow> int \<Rightarrow> bool" where
  "inRange lo hi v = (v \<ge> lo \<and> v \<le> hi)"

definition UnifiedSimpleRule_getAvailableActions :: "config \<Rightarrow> int \<Rightarrow> bool \<Rightarrow> int list" where
  "UnifiedSimpleRule_getAvailableActions c state isFirst =
     (if isFirst \<and> \<not> onlySubtraction c then
        [digit. digit \<leftarrow> selectedDigits c, inRange 0 (maxState c) (state + digit)]
      else if state = 0 \<and> \<not> onlySubtraction c then
        [digit. digit \<leftarrow> selectedDigits c, digit \<le> maxState c]
      else
        (if \<not> onlySubtraction c then
           [digit. digit \<leftarrow> selectedDigits c, inRange 0 (maxState c) (state + digit)]
         else [])
        @ (if \<not> onlyAddition c then
           [- digit. digit \<leftarrow> selectedDigits c, inRange 0 (maxState c) (state - digit)]
         else []))"

text \<open>
  \<open>BrothersRule\<close>, \<open>FriendsRule\<close> and \<open>MixRule\<close> carry three copies of one
  \<open>getAvailableActions\<close>; they differ in the upper bound \<open>hi\<close> (9, 99, 99), the technique
  digits, the classifier \<open>isT\<close> and the number \<open>reps\<close> of times a signature action
  is pushed (\<open>Math.floor(priority * 10)\<close>: 5, 5 and 6).
\<close>

definition techActions ::
  "int \<Rightarrow> nat \<Rightarrow> (int \<Rightarrow> int \<Rightarrow> bool) \<Rightarrow> int list \<Rightarrow> int list \<Rightarrow> bool \<Rightarrow> bool
     \<Rightarrow> int \<Rightarrow> bool \<Rightarrow> int list" where
  "techActions hi reps isT simpleDigits techDigits onlyAdd onlySub state isFirst =
     (if isFirst \<and> \<not> onlySub then
        [digit. digit \<leftarrow> simpleDigits, inRange 0 hi (state + digit)]
        @ concat [replicate reps digit. digit \<leftarrow> techDigits,
                    inRange 0 hi (state + digit) \<and> isT state (state + digit)]
      else if state = 0 \<and> \<not> onlySub then
        [digit. digit \<leftarrow> simpleDigits, digit \<le> hi]
        @ concat [replicate reps digit. digit \<leftarrow> techDigits,
                    state + digit \<le> hi \<and> isT state (state + digit)]
      else
        (if \<not> onlySub then
           [digit. digit \<leftarrow> simpleDigits, inRange 0 hi (state + digit)]
           @ concat [replicate reps digit. digit \<leftarrow> techDigits,
                       inRange 0 hi (state + digit) \<and> isT state (state + digit)]
         else [])
        @ (if \<not> onlyAdd then
           [- digit. digit \<leftarrow> simpleDigits, inRange 0 hi (state - digit)]
           @ concat [replicate reps (- digit). digit \<leftarrow> techDigits,
                       inRange 0 hi (state - digit) \<and> isT state (state - digit)]
         else []))"

fun getAvailableActions :: "rule \<Rightarrow> int \<Rightarrow> bool \<Rightarrow> int list" where
  "getAvailableActions (UnifiedSimple c) state isFirst =
     UnifiedSimpleRule_getAvailableActions c state isFirst"
| "getAvailableActions (Brothers c ds ps) state isFirst =
     techActions 9 5 (isBrotherTransition ds ps) (simpleBlockDigits c) ds
       (onlyAddition c) (onlySubtraction c) state isFirst"
| "getAvailableActions (Friends c ds ps) state isFirst =
     techActions 99 5 (isFriendTransition ds ps) (simpleBlockDigits c) ds
       (onlyAddition c) (onlySubtraction c) state isFirst"
| "getAvailableActions (Mix c ds m) state isFirst =
     techActions 99 6 (isMixTransition m) (simpleBlockDigits c) ds
       (onlyAddition c) (onlySubtraction c) state isFirst"

definition applyAction :: "int \<Rightarrow> int \<Rightarrow> int" where
  "applyAction state a = state + a"

section \<open>Decomposition into micro-steps\<close>

definition BrothersRule_decomposeAction ::
  "int list \<Rightarrow> (int \<times> int \<times> int) list \<Rightarrow> int \<Rightarrow> int \<Rightarrow> micro_step list" where
  "BrothersRule_decomposeAction digits pairs state a =
     (if isBrotherTransition digits pairs state (state + a) then
        (let brother = getBrother \<bar>a\<bar> in
         if a > 0 then
           [\<lparr>ms_action = 5, ms_type = TUpper\<rparr>, \<lparr>ms_action = - brother, ms_type = TLower\<rparr>]
         else
           [\<lparr>ms_action = - 5, ms_type = TUpper\<rparr>, \<lparr>ms_action = brother, ms_type = TLower\<rparr>])
      else [\<lparr>ms_action = a, ms_type = TSimple\<rparr>])"

definition MixRule_decomposeAction :: "(int \<rightharpoonup> micro_step list) \<Rightarrow> int \<Rightarrow> micro_step list" where
  "MixRule_decomposeAction combos a =
     (case combos a of
        Some microSteps \<Rightarrow> microSteps
      | None \<Rightarrow> [\<lparr>ms_action = a, ms_type = TSimple\<rparr>])"

section \<open>Validation of an example\<close>

text \<open>The states an example runs through after each of its steps, from \<open>s\<close>.\<close>

fun statesFrom :: "int \<Rightarrow> step list \<Rightarrow> int list" where
  "statesFrom s [] = []"
| "statesFrom s (st # sts) = (s + action st) # statesFrom (s + action st) sts"

definition BaseRule_validateExample :: "config \<Rightarrow> example \<Rightarrow> bool" where
  "BaseRule_validateExample c ex =
     (if steps ex = [] then False
      else if foldl (\<lambda>s st. applyAction s (action st)) (start ex) (steps ex) \<noteq> answer ex then False
      else if onlyAddition c \<and> list_ex (\<lambda>st. action st < 0) (steps ex) then False
      else if onlySubtraction c \<and> list_ex (\<lambda>st. action st > 0) (steps ex) then False
      else if \<not> digitCount c > 1 then
        \<not> list_ex (\<lambda>s. s < minState c \<or> s > maxState c) (statesFrom (start ex) (steps ex))
      else True)"

definition isPhysicallyPossible :: "config \<Rightarrow> int \<Rightarrow> int \<Rightarrow> bool" where
  "isPhysicallyPossible c state a =
     (let newState = state + a in
      if newState < 0 \<or> newState > maxState c then False
      else
        (let upperActive = upperBead state; lowerActive = lowerBeads state;
             newUpperActive = upperBead newState; newLowerActive = lowerBeads newState in
         if a > 0 then
           (let needUpper = newUpperActive - upperActive;
                needLower = newLowerActive - lowerActive in
            if needUpper > 0 \<and> upperActive = 1 then False
            else if needLower > 0 \<and> lowerActive + needLower > 4 then False
            else if needLower < 0 \<and> lowerActive + needLower < 0 then False
            else True)
         else
           (let needUpper = upperActive - newUpperActive;
                needLower = lowerActive - newLowerActive in
            if needUpper > 0 \<and> upperActive = 0 then False
            else if needLower > 0 \<and> lowerActive < needLower then False
            else if needLower < 0 \<and> lowerActive - needLower > 4 then False
            else True)))"

fun allPhysicallyPossible :: "config \<Rightarrow> int \<Rightarrow> step list \<Rightarrow> bool" where
  "allPhysicallyPossible c s [] = True"
| "allPhysicallyPossible c s (st # sts) =
     (if \<not> isPhysicallyPossible c s (action st) then False
      else allPhysicallyPossible c (applyAction s (action st)) sts)"

definition UnifiedSimpleRule_validateExample :: "config \<Rightarrow> example \<Rightarrow> bool" where
  "UnifiedSimpleRule_validateExample c ex =
     (if \<not> BaseRule_validateExample c ex then False
      else allPhysicallyPossible c (start ex) (steps ex))"

text \<open>
  The first loop of the three compensation rules: walk the steps from \<open>start\<close> and stop at
  the first signature transition.
\<close>

fun hasSignatureStep :: "(int \<Rightarrow> int \<Rightarrow> bool) \<Rightarrow> int \<Rightarrow> step list \<Rightarrow> bool" where
  "hasSignatureStep isT s [] = False"
| "hasSignatureStep isT s (st # sts) =
     (if isT s (s + action st) then True else hasSignatureStep isT (s + action st) sts)"

text \<open>
  \<open>validateExample\<close> of \<open>BrothersRule\<close>, \<open>FriendsRule\<close> and \<open>MixRule\<close>: again three
  copies, with the classifier \<open>isT\<close> and the upper bound \<open>hi\<close> (9, 99, 99).
\<close>

definition techValidateExample ::
  "(int \<Rightarrow> int \<Rightarrow> bool) \<Rightarrow> int \<Rightarrow> config \<Rightarrow> example \<Rightarrow> bool" where
  "techValidateExample isT hi c ex =
     (if steps ex = [] then False
      else if \<not> hasSignatureStep isT (start ex) (steps ex) then False
      else if list_ex (\<lambda>s. s < 0 \<or> s > hi) (statesFrom (start ex) (steps ex)) then False
      else if onlyAddition c \<and> list_ex (\<lambda>st. action st < 0) (steps ex) then False
      else if onlySubtraction c \<and> list_ex (\<lambda>st. action st > 0) (steps ex) then False
      else True)"

fun validateExample :: "rule \<Rightarrow> example \<Rightarrow> bool" where
  "validateExample (UnifiedSimple c) ex = UnifiedSimpleRule_validateExample c ex"
| "validateExample (Brothers c ds ps) ex = techValidateExample (isBrotherTransition ds ps) 9 c ex"
| "validateExample (Friends c ds ps) ex = techValidateExample (isFriendTransition ds ps) 99 c ex"
| "validateExample (Mix c ds m) ex = techValidateExample (isMixTransition m) 99 c ex"

section \<open>The random source\<close>

text \<open>
  \<open>Math.random()\<close> is modelled by a list of natural numbers that the generators consume
  from the front, one per call; a list that has run out yields 0. Each draw is used once,
  in one of three ways: \<open>Math.floor(Math.random() * n)\<close> is \<open>randomBelow n x\<close>, which
  ranges over \<open>0, ..., n - 1\<close> for a positive \<open>n\<close> (and over \<open>n, ..., 0\<close> otherwise, as
  the product then is not positive); \<open>Math.random() < 0.1\<close> is \<open>x mod 10 = 0\<close>; and
  \<open>Math.random() < 0.5\<close> is \<open>x mod 2 = 0\<close>. Every outcome of a call is the image of
  some draw, and nothing else is.
\<close>

type_synonym rnd = "nat list"

definition draw :: "rnd \<Rightarrow> nat \<times> rnd" where
  "draw rs = (case rs of [] \<Rightarrow> (0, []) | x # rs' \<Rightarrow> (x, rs'))"

definition randomBelow :: "int \<Rightarrow> nat \<Rightarrow> int" where
  "randomBelow n x = (if n > 0 then int (x mod nat n) else - int (x mod nat (1 - n)))"

text \<open>\<open>xs[Math.floor(Math.random() * xs.length)]\<close>, for a non-empty \<open>xs\<close>.\<close>

definition pick :: "'a list \<Rightarrow> nat \<Rightarrow> 'a" where
  "pick xs x = xs ! (x mod length xs)"

text \<open>
  \<open>generateStepsCount\<close>, as the four rules override it:
  \<open>minSteps + Math.floor(Math.random() * (maxSteps - minSteps + 1))\<close>.
\<close>

definition generateStepsCount :: "config \<Rightarrow> rnd \<Rightarrow> int \<times> rnd" where
  "generateStepsCount c rs =
     (let (x, rs') = draw rs in (minSteps c + randomBelow (maxSteps c - minSteps c + 1) x, rs'))"

section \<open>ExampleGenerator\<close>

datatype error =
    NoAvailableActions
  | InvalidArrayLength
  | NullAction
  | StateOutOfBounds
  | GenerationFailed

text \<open>
  \<open>_generateSingleDigitAttempt\<close>. The start state is 0 for each of the four rules. The
  loop runs \<open>stepsCount\<close> times (not at all when it is not positive); \<open>i\<close> is its index
  and \<open>sts\<close> the steps pushed so far. An empty list of available actions throws.
\<close>

fun singleDigitLoop ::
  "rule \<Rightarrow> nat \<Rightarrow> nat \<Rightarrow> int \<Rightarrow> int \<Rightarrow> step list \<Rightarrow> rnd \<Rightarrow> (error + example) \<times> rnd" where
  "singleDigitLoop r 0 i startState cur sts rs =
     (Inr \<lparr> start = startState, steps = sts, answer = cur \<rparr>, rs)"
| "singleDigitLoop r (Suc n) i startState cur sts rs =
     (let available = getAvailableActions r cur (i = 0) in
      if available = [] then (Inl NoAvailableActions, rs)
      else
        (let (x, rs') = draw rs;
             a = pick available x;
             nextState = applyAction cur a
         in singleDigitLoop r n (Suc i) startState nextState
              (sts @ [\<lparr> action = a, fromState = cur, toState = nextState \<rparr>]) rs'))"

definition generateSingleDigitAttempt :: "rule \<Rightarrow> rnd \<Rightarrow> (error + example) \<times> rnd" where
  "generateSingleDigitAttempt r rs =
     (let startState = 0;
          (stepsCount, rs') = generateStepsCount (config_of r) rs
      in singleDigitLoop r (nat stepsCount) 0 startState startState [] rs')"

text \<open>\<open>_vectorToNumber\<close>: the columns read as decimal digits, most significant first.\<close>

definition vectorToNumber :: "int list \<Rightarrow> int" where
  "vectorToNumber vec =
     foldl (\<lambda>sum (idx, val). sum + val * 10 ^ (length vec - 1 - idx)) 0 (enumerate 0 vec)"

text \<open>
  The independent mode of \<open>_generateMultiDigitAttemptVectorBased\<close>: every column with
  available actions draws one of its own; a column without any stays as it is.
\<close>

fun independentColumns :: "rule \<Rightarrow> bool \<Rightarrow> int list \<Rightarrow> rnd \<Rightarrow> int list \<times> rnd" where
  "independentColumns r isFirst [] rs = ([], rs)"
| "independentColumns r isFirst (v # vs) rs =
     (let available = getAvailableActions r v isFirst in
      if available \<noteq> [] then
        (let (x, rs') = draw rs;
             (vs', rs'') = independentColumns r isFirst vs rs'
         in (applyAction v (pick available x) # vs', rs''))
      else
        (let (vs', rs'') = independentColumns r isFirst vs rs in (v # vs', rs'')))"

text \<open>
  The loop of \<open>_generateMultiDigitAttemptVectorBased\<close>. With \<open>combineLevels\<close> one action
  is drawn from the actions of column 0 (\<open>_pickCombinedAction\<close>, which throws when there
  is none), applied to every column, and recorded as the step's action; otherwise the
  step's action is the difference of the numbers after and before. The vector has
  \<open>digitCount \<ge> 2\<close> columns here, so \<open>stateVector[0]\<close> exists.
\<close>

fun vectorLoop ::
  "rule \<Rightarrow> nat \<Rightarrow> nat \<Rightarrow> int list \<Rightarrow> int list \<Rightarrow> step list \<Rightarrow> rnd \<Rightarrow> (error + example) \<times> rnd" where
  "vectorLoop r 0 i startVec vec sts rs =
     (Inr \<lparr> start = vectorToNumber startVec, steps = sts, answer = vectorToNumber vec \<rparr>, rs)"
| "vectorLoop r (Suc n) i startVec vec sts rs =
     (if combineLevels (config_of r) then
        (let available = getAvailableActions r (hd vec) (i = 0) in
         if available = [] then (Inl NoAvailableActions, rs)
         else
           (let (x, rs') = draw rs;
                a = pick available x;
                nextVec = map (\<lambda>val. applyAction val a) vec
            in vectorLoop r n (Suc i) startVec nextVec
                 (sts @ [\<lparr> action = a, fromState = vectorToNumber vec,
                          toState = vectorToNumber nextVec \<rparr>]) rs'))
      else
        (let (nextVec, rs') = independentColumns r (i = 0) vec rs;
             totalAction = vectorToNumber nextVec - vectorToNumber vec
         in vectorLoop r n (Suc i) startVec nextVec
              (sts @ [\<lparr> action = totalAction, fromState = vectorToNumber vec,
                       toState = vectorToNumber nextVec \<rparr>]) rs'))"

text \<open>
  \<open>new Array(digitCount)\<close> throws a \<open>RangeError\<close> for a negative length and for one
  above \<open>2^32 - 1\<close>; the caller's \<open>try\<close> catches it like any other failure.
\<close>

definition orOne :: "int \<Rightarrow> int" where
  "orOne n = (if n = 0 then 1 else n)"

definition generateMultiDigitAttemptVectorBased :: "rule \<Rightarrow> rnd \<Rightarrow> (error + example) \<times> rnd" where
  "generateMultiDigitAttemptVectorBased r rs =
     (let dc = orOne (digitCount (config_of r)) in
      if dc < 0 \<or> dc > 4294967295 then (Inl InvalidArrayLength, rs)
      else
        (let startStateVector = replicate (nat dc) 0;
             (stepsCount, rs') = generateStepsCount (config_of r) rs
         in vectorLoop r (nat stepsCount) 0 startStateVector startStateVector [] rs'))"

definition generateFallbackExample :: example where
  "generateFallbackExample = \<lparr> start = 0,
     steps = [\<lparr> action = 1, fromState = 0, toState = 1 \<rparr>,
              \<lparr> action = 1, fromState = 1, toState = 2 \<rparr>,
              \<lparr> action = - 1, fromState = 2, toState = 1 \<rparr>],
     answer = 1 \<rparr>"

text \<open>\<open>xs.slice(0, e)\<close>: a negative \<open>e\<close> counts from the end.\<close>

definition sliceTo :: "int \<Rightarrow> 'a list \<Rightarrow> 'a list" where
  "sliceTo e xs = (if e \<ge> 0 then take (nat e) xs else take (nat (int (length xs) + e)) xs)"

text \<open>
  The body of the \<open>try\<close> up to the validation: one attempt, cut to \<open>maxSteps\<close> steps with
  the answer recomputed when it is longer. (\<open>config.maxSteps\<close> is set by every rule
  constructor, so the \<open>??\<close> alternatives are never taken.)
\<close>

definition truncateExample :: "int \<Rightarrow> example \<Rightarrow> example" where
  "truncateExample maxStepsAllowed ex =
     (if int (length (steps ex)) > maxStepsAllowed then
        (let sts = sliceTo maxStepsAllowed (steps ex) in
         ex \<lparr> steps := sts, answer := foldl (\<lambda>finalState st. finalState + action st) (start ex) sts \<rparr>)
      else ex)"

definition attempt :: "rule \<Rightarrow> rnd \<Rightarrow> (error + example) \<times> rnd" where
  "attempt r rs =
     (let (res, rs') =
            (if orOne (digitCount (config_of r)) = 1 then generateSingleDigitAttempt r rs
             else generateMultiDigitAttemptVectorBased r rs)
      in case res of
           Inl e \<Rightarrow> (Inl e, rs')
         | Inr ex \<Rightarrow> (Inr (truncateExample (maxSteps (config_of r)) ex), rs'))"

text \<open>
  The attempt loop of \<open>generate\<close>: a thrown error is caught and the loop goes on, an
  example that fails \<open>validateExample\<close> is dropped, and when no attempt is left the
  fallback example is returned.
\<close>

fun attemptLoop :: "rule \<Rightarrow> nat \<Rightarrow> rnd \<Rightarrow> example" where
  "attemptLoop r 0 rs = generateFallbackExample"
| "attemptLoop r (Suc k) rs =
     (case attempt r rs of
        (Inl e, rs') \<Rightarrow> attemptLoop r k rs'
      | (Inr ex, rs') \<Rightarrow> if \<not> validateExample r ex then attemptLoop r k rs' else ex)"

definition maxAttempts :: "config \<Rightarrow> nat" where
  "maxAttempts c =
     (let dc = orOne (digitCount c);
          n = (if dc = 1 then 100 else if dc \<le> 3 then 200 else 250)
      in if \<not> combineLevels c \<and> dc > 1 then n * 2 else n)"

section \<open>MultiDigitGenerator\<close>

datatype rule_class = UnifiedSimpleRuleClass | BrothersRuleClass | FriendsRuleClass | MixRuleClass

fun newRule :: "rule_class \<Rightarrow> raw_config \<Rightarrow> rule" where
  "newRule UnifiedSimpleRuleClass rc = UnifiedSimpleRule rc"
| "newRule BrothersRuleClass rc = BrothersRule rc"
| "newRule FriendsRuleClass rc = FriendsRule rc"
| "newRule MixRuleClass rc = MixRule rc"

record multi_digit_generator =
  baseRule :: rule
  displayDigitCount :: int
  maxDigitCount :: int
  variableDigitCounts :: bool

definition MultiDigitGenerator :: "rule_class \<Rightarrow> int \<Rightarrow> raw_config \<Rightarrow> bool option \<Rightarrow> multi_digit_generator" where
  "MultiDigitGenerator RuleClass maxDigits rc variable =
     (let display = max 1 (min 9 maxDigits) in
      \<lparr> baseRule = newRule RuleClass rc,
        displayDigitCount = display,
        maxDigitCount = display + 1,
        variableDigitCounts = orElse variable False \<rparr>)"

text \<open>
  The \<open>while\<close> loop that chooses the digit at position \<open>pos\<close>: \<open>left\<close> is the number of
  tries left of the 50, \<open>used\<close> the digits of this number so far and \<open>zeros\<close> the counter
  \<open>_zeroDigitsUsed\<close> (with \<open>maxZeroDigits = 1\<close>). Each try draws the digit and then the
  duplicate allowance. When the tries run out the first configured digit is taken.
  \<open>sel\<close> is not empty (see \<open>MultiDigitGenerator_generateExample\<close> below).
\<close>

fun chooseDigit :: "int list \<Rightarrow> int list \<Rightarrow> nat \<Rightarrow> nat \<Rightarrow> nat \<Rightarrow> rnd \<Rightarrow> int \<times> rnd" where
  "chooseDigit sel used pos zeros 0 rs = (sel ! 0, rs)"
| "chooseDigit sel used pos zeros (Suc left) rs =
     (let (x, rs') = draw rs;
          digit = pick sel x;
          (y, rs'') = draw rs';
          allowDuplicate = (y mod 10 = 0)
      in if digit \<notin> set used \<or> allowDuplicate then
           (if pos = 0 \<and> digit = 0 then chooseDigit sel used pos zeros left rs''
            else if digit = 0 \<and> zeros \<ge> 1 then chooseDigit sel used pos zeros left rs''
            else (digit, rs''))
         else chooseDigit sel used pos zeros left rs'')"

text \<open>The \<open>for\<close> loop over the positions: \<open>n\<close> positions are left, \<open>digits\<close> are chosen.\<close>

fun chooseDigits :: "int list \<Rightarrow> nat \<Rightarrow> nat \<Rightarrow> int list \<Rightarrow> nat \<Rightarrow> rnd \<Rightarrow> int list \<times> nat \<times> rnd" where
  "chooseDigits sel 0 pos digits zeros rs = (digits, zeros, rs)"
| "chooseDigits sel (Suc n) pos digits zeros rs =
     (let (digit, rs') = chooseDigit sel digits pos zeros 50 rs
      in chooseDigits sel n (Suc pos) (digits @ [digit])
           (if digit = 0 then Suc zeros else zeros) rs')"

text \<open>
  \<open>_generateMultiDigitAction\<close>: \<open>None\<close> is the \<open>null\<close> it returns when the action would
  leave \<open>[0, 10^maxDigitCount)\<close>. The counter of zero digits is returned with the rest
  of the random source.
\<close>

definition generateMultiDigitAction ::
  "multi_digit_generator \<Rightarrow> int \<Rightarrow> bool \<Rightarrow> nat \<Rightarrow> rnd \<Rightarrow> int option \<times> nat \<times> rnd" where
  "generateMultiDigitAction g currentState isFirst zeros rs =
     (let c = config_of (baseRule g);
          sel = selectedDigits c;
          (dc, rs1) = (if variableDigitCounts g
                       then (let (x, rs') = draw rs in (1 + randomBelow (displayDigitCount g) x, rs'))
                       else (displayDigitCount g, rs));
          (digits, zeros', rs2) = chooseDigits sel (nat dc) 0 [] zeros rs1;
          number = vectorToNumber digits;
          (sign, rs3) = (if isFirst then (1, rs2)
                         else if currentState = 0 then (1, rs2)
                         else if onlyAddition c then (1, rs2)
                         else if onlySubtraction c then (- 1, rs2)
                         else (let (x, rs') = draw rs2 in (if x mod 2 = 0 then 1 else - 1, rs')));
          a = number * sign;
          nextState = currentState + a
      in if nextState < 0 \<or> nextState \<ge> 10 ^ nat (maxDigitCount g) then (None, zeros', rs3)
         else (Some a, zeros', rs3))"

text \<open>
  The loop of \<open>_generateAttempt\<close>; the counters are reset before it starts, and it throws
  when no action could be generated.
\<close>

fun multiDigitLoop ::
  "multi_digit_generator \<Rightarrow> nat \<Rightarrow> nat \<Rightarrow> int \<Rightarrow> int \<Rightarrow> step list \<Rightarrow> nat \<Rightarrow> rnd
     \<Rightarrow> (error + example) \<times> rnd" where
  "multiDigitLoop g 0 i startState cur sts zeros rs =
     (Inr \<lparr> start = startState, steps = sts, answer = cur \<rparr>, rs)"
| "multiDigitLoop g (Suc n) i startState cur sts zeros rs =
     (case generateMultiDigitAction g cur (i = 0) zeros rs of
        (None, zeros', rs') \<Rightarrow> (Inl NullAction, rs')
      | (Some a, zeros', rs') \<Rightarrow>
          (let nextState = cur + a in
           if nextState < 0 \<or> nextState \<ge> 10 ^ nat (maxDigitCount g)
           then (Inl StateOutOfBounds, rs')
           else multiDigitLoop g n (Suc i) startState nextState
                  (sts @ [\<lparr> action = a, fromState = cur, toState = nextState \<rparr>]) zeros' rs'))"

definition generateAttempt :: "multi_digit_generator \<Rightarrow> int \<Rightarrow> rnd \<Rightarrow> (error + example) \<times> rnd" where
  "generateAttempt g stepsCount rs = multiDigitLoop g (nat stepsCount) 0 0 0 [] 0 rs"

fun multiDigitAttempts :: "multi_digit_generator \<Rightarrow> int \<Rightarrow> nat \<Rightarrow> rnd \<Rightarrow> error + example" where
  "multiDigitAttempts g stepsCount 0 rs = Inl GenerationFailed"
| "multiDigitAttempts g stepsCount (Suc k) rs =
     (case generateAttempt g stepsCount rs of
        (Inl e, rs') \<Rightarrow> multiDigitAttempts g stepsCount k rs'
      | (Inr ex, rs') \<Rightarrow>
          if \<not> validateExample (baseRule g) ex then multiDigitAttempts g stepsCount k rs'
          else Inr ex)"

text \<open>
  \<open>generateExample\<close>: the step count is drawn once, then up to 500 attempts are made, and
  an error is thrown when none passes the validation of the base rule.

  When the base rule's \<open>config.selectedDigits\<close> is the empty array, every digit read from
  it is \<open>undefined\<close> and every action is \<open>NaN\<close>. An attempt then yields an example whose
  steps are empty (no step was asked for) or whose states are \<open>NaN\<close> from the first step
  on, and each \<open>validateExample\<close> rejects both: the base check \<open>currentState !== answer\<close>
  holds of \<open>NaN\<close>, and no transition to \<open>NaN\<close> is a signature transition. So all 500
  attempts fail, which is the result written here for that case.
\<close>

definition MultiDigitGenerator_generateExample :: "multi_digit_generator \<Rightarrow> rnd \<Rightarrow> error + example" where
  "MultiDigitGenerator_generateExample g rs =
     (let (stepsCount, rs') = generateStepsCount (config_of (baseRule g)) rs in
      if selectedDigits (config_of (baseRule g)) = [] then Inl GenerationFailed
      else multiDigitAttempts g stepsCount 500 rs')"

section \<open>ExampleGenerator.generate\<close>

datatype generator_rule = PlainRule rule | MultiDigitRule multi_digit_generator

fun ExampleGenerator_generate :: "generator_rule \<Rightarrow> rnd \<Rightarrow> error + example" where
  "ExampleGenerator_generate (MultiDigitRule g) rs = MultiDigitGenerator_generateExample g rs"
| "ExampleGenerator_generate (PlainRule r) rs = Inr (attemptLoop r (maxAttempts (config_of r)) rs)"

section \<open>core/generator.js\<close>

record block =
  b_digits :: "int list option"
  b_onlyAddition :: "bool option"
  b_onlySubtraction :: "bool option"

record blocks =
  simpleBlock :: "block option"
  brothersBlock :: "block option"
  friendsBlock :: "block option"
  mixBlock :: "block option"

record actions_cfg =
  a_infinite :: bool
  a_min :: "int option"
  a_max :: "int option"
  a_count :: "int option"

text \<open>
  \<open>s_digits\<close> is \<open>parseInt(settings.digits, 10)\<close>, with \<open>None\<close> for \<open>NaN\<close>;
  \<open>s_combineLevels\<close> is \<open>settings.combineLevels === true\<close>.
\<close>

record settings =
  s_digits :: "int option"
  s_combineLevels :: bool
  s_actions :: actions_cfg
  s_blocks :: blocks

text \<open>
  The example in the trainer's format. A token \<open>"+N"\<close> or \<open>"-N"\<close> is modelled by the
  signed number it prints.
\<close>

record trainer_example =
  t_start :: int
  t_steps :: "int list"
  t_answer :: int

definition blockDigits :: "block option \<Rightarrow> int list" where
  "blockDigits b = (case b of None \<Rightarrow> [] | Some bl \<Rightarrow> orElse (b_digits bl) [])"

definition blockFlag :: "block option \<Rightarrow> (block \<Rightarrow> bool option) \<Rightarrow> bool" where
  "blockFlag b f = (case b of None \<Rightarrow> False | Some bl \<Rightarrow> orElse (f bl) False)"

definition nonEmptyOr :: "int list \<Rightarrow> int list \<Rightarrow> int list" where
  "nonEmptyOr xs d = (if length xs > 0 then xs else d)"

definition toTrainerFormat :: "example \<Rightarrow> trainer_example" where
  "toTrainerFormat ex = \<lparr> t_start = start ex, t_steps = map action (steps ex), t_answer = answer ex \<rparr>"

text \<open>The rule class and the configuration \<open>generateExample\<close> chooses: Mix before Friends
  before Brothers before Simple.\<close>

definition ruleChoice :: "settings \<Rightarrow> rule_class \<times> raw_config" where
  "ruleChoice st =
     (let bs = s_blocks st;
          acts = s_actions st;
          minS = (if a_infinite acts then 2
                  else (case a_min acts of Some m \<Rightarrow> m | None \<Rightarrow> orElse (a_count acts) 2));
          maxS = (if a_infinite acts then 12
                  else (case a_max acts of Some m \<Rightarrow> m | None \<Rightarrow> orElse (a_count acts) 4));
          common = (\<lambda>sel (b :: block option) five. \<lparr>
             raw_selectedDigits = Some sel,
             raw_includeFive = five,
             raw_minSteps = Some minS,
             raw_maxSteps = Some maxS,
             raw_onlyAddition = Some (blockFlag b b_onlyAddition),
             raw_onlySubtraction = Some (blockFlag b b_onlySubtraction),
             raw_digitCount = Some 1,
             raw_combineLevels = Some (s_combineLevels st),
             raw_simpleDigits = (case simpleBlock bs of None \<Rightarrow> None | Some bl \<Rightarrow> b_digits bl) \<rparr>)
      in if length (blockDigits (mixBlock bs)) > 0 then
           (MixRuleClass,
            common (nonEmptyOr (digitsIn 6 9 (blockDigits (mixBlock bs))) [6, 7, 8, 9]) (mixBlock bs) None)
         else if length (blockDigits (friendsBlock bs)) > 0 then
           (FriendsRuleClass,
            common (nonEmptyOr (digitsIn 1 9 (blockDigits (friendsBlock bs))) [9]) (friendsBlock bs) None)
         else if length (blockDigits (brothersBlock bs)) > 0 then
           (BrothersRuleClass,
            common (nonEmptyOr (digitsIn 1 4 (blockDigits (brothersBlock bs))) [4]) (brothersBlock bs) None)
         else
           (let sel = digitsIn 1 9 (blockDigits (simpleBlock bs)) in
            (UnifiedSimpleRuleClass,
             common (nonEmptyOr sel [1, 2, 3, 4]) (simpleBlock bs) (Some (list_ex (\<lambda>d. d \<ge> 5) sel)))))"

text \<open>
  \<open>generateExample(settings)\<close>: more than one digit wraps the rule class in a
  \<open>MultiDigitGenerator\<close>. Whatever is thrown is caught and answered with the example
  \<open>+1 +2 -1 = 2\<close>.
\<close>

definition generateExample :: "settings \<Rightarrow> rnd \<Rightarrow> trainer_example" where
  "generateExample st rs =
     (let dc = (case s_digits st of Some d \<Rightarrow> if d > 0 then d else 1 | None \<Rightarrow> 1);
          (RuleClass, rc) = ruleChoice st;
          r = (if dc > 1
               then MultiDigitRule (MultiDigitGenerator RuleClass dc rc (Some (s_combineLevels st)))
               else PlainRule (newRule RuleClass rc))
      in case ExampleGenerator_generate r rs of
           Inr rawExample \<Rightarrow> toTrainerFormat rawExample
         | Inl e \<Rightarrow> \<lparr> t_start = 0, t_steps = [1, 2, - 1], t_answer = 2 \<rparr>)"

section \<open>PrintGenerator\<close>

text \<open>The object handed to the constructor, and the configuration it stores:
  \<open>x || d\<close> replaces an absent or zero \<open>x\<close> by the default \<open>d\<close>.\<close>

record print_settings =
  ps_examplesCount :: "int option"
  ps_actionsCount :: "int option"
  ps_digitCount :: "int option"
  ps_blocks :: "blocks option"
  ps_combineLevels :: "bool option"
  ps_maxAttemptsPerExample :: "int option"

record print_config =
  examplesCount :: int
  actionsCount :: int
  printDigitCount :: int
  printBlocks :: blocks
  printCombineLevels :: bool
  maxAttemptsPerExample :: int

record print_example =
  pe_id :: int
  pe_steps :: "int list"
  pe_answer :: int
  pe_start :: int

datatype print_error =
    ExamplesCountOutOfRange
  | ActionsCountOutOfRange
  | DigitCountOutOfRange
  | NoActiveBlock
  | FriendsNeedTwoDigits
  | MixNeedsTwoDigits

definition orDefault :: "int option \<Rightarrow> int \<Rightarrow> int" where
  "orDefault x d = (case x of None \<Rightarrow> d | Some v \<Rightarrow> if v = 0 then d else v)"

definition noBlocks :: blocks where
  "noBlocks = \<lparr> simpleBlock = None, brothersBlock = None, friendsBlock = None, mixBlock = None \<rparr>"

definition PrintGenerator :: "print_settings \<Rightarrow> print_config" where
  "PrintGenerator ps = \<lparr>
     examplesCount = orDefault (ps_examplesCount ps) 20,
     actionsCount = orDefault (ps_actionsCount ps) 5,
     printDigitCount = orDefault (ps_digitCount ps) 1,
     printBlocks = orElse (ps_blocks ps) noBlocks,
     printCombineLevels = orElse (ps_combineLevels ps) False,
     maxAttemptsPerExample = orDefault (ps_maxAttemptsPerExample ps) 100 \<rparr>"

definition blockActive :: "block option \<Rightarrow> bool" where
  "blockActive b = (length (blockDigits b) > 0)"

definition hasActiveBlock :: "blocks \<Rightarrow> bool" where
  "hasActiveBlock bs =
     (if blockActive (simpleBlock bs) then True
      else if blockActive (brothersBlock bs) then True
      else if blockActive (friendsBlock bs) then True
      else if blockActive (mixBlock bs) then True
      else False)"

definition validate :: "print_config \<Rightarrow> print_error + unit" where
  "validate c =
     (if examplesCount c < 1 \<or> examplesCount c > 1000 then Inl ExamplesCountOutOfRange
      else if actionsCount c < 1 \<or> actionsCount c > 20 then Inl ActionsCountOutOfRange
      else if printDigitCount c < 1 \<or> printDigitCount c > 9 then Inl DigitCountOutOfRange
      else if \<not> hasActiveBlock (printBlocks c) then Inl NoActiveBlock
      else if blockActive (friendsBlock (printBlocks c)) \<and> printDigitCount c < 2
        then Inl FriendsNeedTwoDigits
      else if blockActive (mixBlock (printBlocks c)) \<and> printDigitCount c < 2
        then Inl MixNeedsTwoDigits
      else Inr ())"

definition PrintGenerator_generateFallbackExample :: "print_config \<Rightarrow> int \<Rightarrow> print_example" where
  "PrintGenerator_generateFallbackExample c ident =
     (let sts = map (\<lambda>i. if i = 0 then 1 else if i mod 2 = 0 then 2 else - 1)
                  [0 ..< nat (min 3 (actionsCount c))]
      in \<lparr> pe_id = ident, pe_steps = sts, pe_answer = foldl (+) 0 sts, pe_start = 0 \<rparr>)"

text \<open>
  \<open>_generateSingleExample\<close>: \<open>left\<close> is the number of tries left, \<open>k\<close> the number of the
  next call of \<open>generateExample\<close>, which consumes the segment \<open>src k\<close> of the random
  source. \<open>generateExample\<close> does not throw, so the \<open>catch\<close> is never entered.
\<close>

fun singleExampleLoop ::
  "print_config \<Rightarrow> int \<Rightarrow> nat \<Rightarrow> nat \<Rightarrow> (nat \<Rightarrow> rnd) \<Rightarrow> print_example" where
  "singleExampleLoop c ident 0 k src = PrintGenerator_generateFallbackExample c ident"
| "singleExampleLoop c ident (Suc left) k src =
     (let rawExample = generateExample
            \<lparr> s_digits = Some (printDigitCount c),
              s_combineLevels = printCombineLevels c,
              s_actions = \<lparr> a_infinite = False, a_min = None, a_max = None,
                            a_count = Some (actionsCount c) \<rparr>,
              s_blocks = printBlocks c \<rparr> (src k)
      in if length (t_steps rawExample) = 0 then singleExampleLoop c ident left (Suc k) src
         else \<lparr> pe_id = ident, pe_steps = t_steps rawExample, pe_answer = t_answer rawExample,
                pe_start = t_start rawExample \<rparr>)"

definition generateSingleExample :: "print_config \<Rightarrow> int \<Rightarrow> (nat \<Rightarrow> rnd) \<Rightarrow> print_example" where
  "generateSingleExample c ident src = singleExampleLoop c ident (nat (maxAttemptsPerExample c)) 0 src"

text \<open>
  \<open>PrintGenerator.generate\<close>: the error of \<open>validate\<close> is thrown on to the caller before
  anything is generated; otherwise one example per index is generated, the \<open>i\<close>-th from
  the segments \<open>src i\<close> of the random source. (\<open>_generateSingleExample\<close> neither
  throws nor returns \<open>null\<close>, so no index is skipped.)
\<close>

definition PrintGenerator_generate ::
  "print_config \<Rightarrow> (nat \<Rightarrow> nat \<Rightarrow> rnd) \<Rightarrow> print_error + print_example list" where
  "PrintGenerator_generate c src =
     (case validate c of
        Inl e \<Rightarrow> Inl e
      | Inr u \<Rightarrow>
          Inr (map (\<lambda>i. generateSingleExample c (int i + 1) (src i)) [0 ..< nat (examplesCount c)]))"

section \<open>Auxiliary notions for the properties\<close>

text \<open>
  The steps are chained from \<open>s\<close>: each step starts where the one before it ended, and
  ends at its start plus its action.
\<close>

fun chained :: "int \<Rightarrow> step list \<Rightarrow> bool" where
  "chained s [] = True"
| "chained s (st # sts) =
     (fromState st = s \<and> toState st = s + action st \<and> chained (s + action st) sts)"

text \<open>
  The generator runs the columns of a rule in lock-step: \<open>generate\<close> takes the vector
  branch (\<open>digitCount\<close> is not 1) and \<open>combineLevels\<close> is set.
\<close>

definition lockStep :: "rule \<Rightarrow> bool" where
  "lockStep r = (orOne (digitCount (config_of r)) \<noteq> 1 \<and> combineLevels (config_of r))"

text \<open>
  The retry budget of \<open>generate\<close> is exhausted: each of the next \<open>k\<close> attempts, made one
  after the other on the random source \<open>rs\<close>, throws or fails the validation.
\<close>

fun budgetExhausted :: "rule \<Rightarrow> nat \<Rightarrow> rnd \<Rightarrow> bool" where
  "budgetExhausted r 0 rs = True"
| "budgetExhausted r (Suc k) rs =
     (case attempt r rs of
        (Inl e, rs') \<Rightarrow> budgetExhausted r k rs'
      | (Inr ex, rs') \<Rightarrow> \<not> validateExample r ex \<and> budgetExhausted r k rs')"

section \<open>Concrete configurations\<close>

text \<open>Configurations and examples at which the properties below are evaluated.\<close>

definition noConfig :: raw_config where
  "noConfig = \<lparr> raw_selectedDigits = None, raw_includeFive = None, raw_minSteps = None,
     raw_maxSteps = None, raw_onlyAddition = None, raw_onlySubtraction = None,
     raw_digitCount = None, raw_combineLevels = None, raw_simpleDigits = None \<rparr>"

definition cfgFour :: raw_config where
  "cfgFour = noConfig \<lparr> raw_selectedDigits := Some [4] \<rparr>"

definition cfgSimpleOnlySub :: raw_config where
  "cfgSimpleOnlySub = noConfig \<lparr> raw_selectedDigits := Some [1, 2, 3, 4],
     raw_onlySubtraction := Some True \<rparr>"

definition cfgTwoColumns :: raw_config where
  "cfgTwoColumns = noConfig \<lparr> raw_selectedDigits := Some [1, 2, 3, 4], raw_digitCount := Some 2 \<rparr>"

definition exEmpty :: example where
  "exEmpty = \<lparr> start = 0, steps = [], answer = 0 \<rparr>"

definition exEleven :: example where
  "exEleven = \<lparr> start = 0, steps = [\<lparr> action = 11, fromState = 0, toState = 11 \<rparr>], answer = 11 \<rparr>"

definition exSeven :: example where
  "exSeven = \<lparr> start = 5, steps = [\<lparr> action = 7, fromState = 5, toState = 12 \<rparr>], answer = 12 \<rparr>"

text \<open>
  The condition of the specification for a brother transition of the digit \<open>n\<close>, in its
  own words: the step crosses the 5-boundary as \<open>+5 - (5 - n)\<close> or \<open>-5 + (5 - n)\<close> and the
  beads are available at \<open>from\<close>. For an addition the upper bead is inactive and \<open>5 - n\<close>
  active lower beads can be removed once it is added; for a subtraction the upper bead is
  active and \<open>5 - n\<close> lower beads can be added once it is removed.
\<close>

definition brotherCrossing_spec :: "int \<Rightarrow> int \<Rightarrow> int \<Rightarrow> bool" where
  "brotherCrossing_spec n from to =
     (if to = from + n then upperBead from = 0 \<and> lowerBeads from \<ge> 5 - n
      else if to = from - n then upperBead from = 1 \<and> lowerBeads from + (5 - n) \<le> 4
      else False)"

text \<open>
  A Friends rule with its defaults (digit 9, two columns, three to seven steps) and
  \<open>combineLevels\<close>, and the example it yields on the draws 0 (three steps), 4 (\<open>+5\<close>),
  5 (\<open>+9\<close>) and 0 (\<open>+1\<close>).
\<close>

definition cfgLockStep :: raw_config where
  "cfgLockStep = noConfig \<lparr> raw_combineLevels := Some True \<rparr>"

definition exLockStep :: example where
  "exLockStep = \<lparr> start = 0,
     steps = [\<lparr> action = 5, fromState = 0, toState = 55 \<rparr>,
              \<lparr> action = 9, fromState = 55, toState = 154 \<rparr>,
              \<lparr> action = 1, fromState = 154, toState = 165 \<rparr>],
     answer = 165 \<rparr>"

definition cfgBrothersOnlySub :: raw_config where
  "cfgBrothersOnlySub = noConfig \<lparr> raw_selectedDigits := Some [4], raw_onlySubtraction := Some True \<rparr>"

definition exFive :: example where
  "exFive = \<lparr> start = 0,
     steps = [\<lparr> action = 4, fromState = 0, toState = 4 \<rparr>,
              \<lparr> action = 5, fromState = 4, toState = 9 \<rparr>,
              \<lparr> action = - 4, fromState = 9, toState = 5 \<rparr>,
              \<lparr> action = - 3, fromState = 5, toState = 2 \<rparr>,
              \<lparr> action = 4, fromState = 2, toState = 6 \<rparr>],
     answer = 6 \<rparr>"

text \<open>The Mix block with two digits, and the rule configuration \<open>ruleChoice\<close> derives from it.\<close>

definition mixSettings :: settings where
  "mixSettings = \<lparr> s_digits = Some 2, s_combineLevels = False,
     s_actions = \<lparr> a_infinite = False, a_min = None, a_max = None, a_count = Some 3 \<rparr>,
     s_blocks = noBlocks \<lparr> mixBlock := Some \<lparr> b_digits = Some [6, 7, 8, 9], b_onlyAddition = None,
        b_onlySubtraction = None \<rparr> \<rparr> \<rparr>"

definition cfgMix :: raw_config where
  "cfgMix = \<lparr> raw_selectedDigits = Some [6, 7, 8, 9], raw_includeFive = None,
     raw_minSteps = Some 3, raw_maxSteps = Some 3, raw_onlyAddition = Some False,
     raw_onlySubtraction = Some False, raw_digitCount = Some 1, raw_combineLevels = Some False,
     raw_simpleDigits = None \<rparr>"

definition psFriendsOneDigit :: print_settings where
  "psFriendsOneDigit = \<lparr> ps_examplesCount = Some 10, ps_actionsCount = Some 3, ps_digitCount = Some 1,
     ps_blocks = Some (noBlocks \<lparr> friendsBlock := Some \<lparr> b_digits = Some [9], b_onlyAddition = None,
        b_onlySubtraction = None \<rparr> \<rparr>),
     ps_combineLevels = None, ps_maxAttemptsPerExample = None \<rparr>"

definition psZeroExamples :: print_settings where
  "psZeroExamples = \<lparr> ps_examplesCount = Some 0, ps_actionsCount = Some 3, ps_digitCount = Some 1,
     ps_blocks = Some (noBlocks \<lparr> simpleBlock := Some \<lparr> b_digits = Some [1, 2, 3, 4],
        b_onlyAddition = None, b_onlySubtraction = None \<rparr> \<rparr>),
     ps_combineLevels = None, ps_maxAttemptsPerExample = None \<rparr>"

definition noDraws :: "nat \<Rightarrow> nat \<Rightarrow> rnd" where
  "noDraws i j = []"

section \<open>The Mix classifier\<close>

lemma mixEntry_has: "mixEntry a m k \<noteq> None \<Longrightarrow> m k \<noteq> None \<or> k = a \<or> k = - a"
  by (auto simp: mixEntry_def Let_def split: if_splits)

lemma mix_has:
  "fold mixEntry ds m k \<noteq> None \<Longrightarrow> m k \<noteq> None \<or> k \<in> set ds \<or> - k \<in> set ds"
proof (induction ds arbitrary: m)
  case Nil
  then show ?case by simp
next
  case (Cons a ds)
  then have "mixEntry a m k \<noteq> None \<or> k \<in> set ds \<or> - k \<in> set ds" by simp
  then show ?case using mixEntry_has[of a m k] by auto
qed

lemma isMixTransition_digitsIn:
  "\<not> isMixTransition (buildMixCombinations (digitsIn 6 9 xs)) from to"
proof
  assume a: "isMixTransition (buildMixCombinations (digitsIn 6 9 xs)) from to"
  then have "buildMixCombinations (digitsIn 6 9 xs) (to - from) \<noteq> None"
    by (auto simp: isMixTransition_def Let_def split: if_splits)
  then have "to - from \<in> set (digitsIn 6 9 xs) \<or> - (to - from) \<in> set (digitsIn 6 9 xs)"
    using mix_has[of "digitsIn 6 9 xs" Map.empty "to - from"] by (simp add: buildMixCombinations_def)
  then have "6 \<le> \<bar>to - from\<bar>" by (auto simp: digitsIn_def)
  with a show False
    by (auto simp: isMixTransition_def Let_def getFriend_def split: if_splits)
qed

lemma isMixTransition_MixRule: "\<not> isMixTransition (mixCombinations (MixRule rc)) from to"
  using isMixTransition_digitsIn[of _ "from" to] isMixTransition_digitsIn[of "[6,7,8,9]" "from" to]
  by (auto simp: MixRule_def Let_def digitsIn_def split: option.splits)

lemma hasSignatureStep_never: "(\<And>a b. \<not> isT a b) \<Longrightarrow> \<not> hasSignatureStep isT s sts"
  by (induction sts arbitrary: s) auto

lemma MixRule_validate_False: "\<not> validateExample (MixRule rc) ex"
proof -
  obtain c ds m where r: "MixRule rc = Mix c ds m" by (simp add: MixRule_def Let_def)
  then have "m = mixCombinations (MixRule rc)" by simp
  then have "\<And>a b. \<not> isMixTransition m a b" using isMixTransition_MixRule by simp
  then have "\<not> hasSignatureStep (isMixTransition m) (start ex) (steps ex)"
    by (rule hasSignatureStep_never)
  then show ?thesis by (simp add: r techValidateExample_def)
qed

text \<open>
  Claim C4. Whatever configuration a \<open>MixRule\<close> is built from, its constructor keeps only
  the digits 6 to 9, and \<open>_isMixTransition\<close> is false for every pair of states (in
  particular for all states in \<open>[0, 99]\<close>): the residual \<open>10 - |delta|\<close> would have to
  exceed 5. Hence \<open>MixRule.validateExample\<close> rejects every example.
\<close>

theorem MixRule_no_signature_transition:
  "\<not> isMixTransition (mixCombinations (MixRule rc)) from to \<and> \<not> validateExample (MixRule rc) ex"
  using isMixTransition_MixRule MixRule_validate_False by blast

theorem MixRule_no_signature_transition_witness:
  "\<not> isMixTransition (mixCombinations (MixRule noConfig)) 5 12
   \<and> \<not> validateExample (MixRule noConfig) exSeven"
  using MixRule_no_signature_transition[of noConfig 5 12 exSeven] .

section \<open>Sign of the available actions\<close>

lemma simple_digits_pos:
  "UnifiedSimpleRule rc = UnifiedSimple c \<Longrightarrow> d \<in> set (selectedDigits c) \<Longrightarrow> 1 \<le> d"
  by (auto simp: UnifiedSimpleRule_def Let_def digitsIn_def split: option.splits)

lemma simpleBlockOf_pos: "d \<in> set (simpleBlockOf rc) \<Longrightarrow> 1 \<le> d"
  by (auto simp: simpleBlockOf_def digitsIn_def split: option.splits)

lemma techActions_nonneg:
  assumes "state = 0 \<or> (isFirst \<and> \<not> onlySub)"
    and "\<And>d. d \<in> set simpleDigits \<Longrightarrow> 1 \<le> d"
    and "\<And>d. d \<in> set techDigits \<Longrightarrow> 1 \<le> d"
    and "a \<in> set (techActions hi reps isT simpleDigits techDigits onlyAdd onlySub state isFirst)"
  shows "0 \<le> a"
  using assms by (fastforce simp: techActions_def inRange_def split: if_splits)

lemma simpleActions_nonneg:
  assumes "state = 0 \<or> (isFirst \<and> \<not> onlySubtraction c)"
    and "\<And>d. d \<in> set (selectedDigits c) \<Longrightarrow> 1 \<le> d"
    and "a \<in> set (UnifiedSimpleRule_getAvailableActions c state isFirst)"
  shows "0 \<le> a"
  using assms
  by (fastforce simp: UnifiedSimpleRule_getAvailableActions_def inRange_def split: if_splits)

text \<open>
  Claim C6, as the code has it. For each of the four rules: at state 0, or on the first
  step of a rule that is not restricted to subtraction, \<open>getAvailableActions\<close> returns
  only non-negative actions. (On a first step with \<open>onlySubtraction\<close> set the guard
  \<open>isFirst && !onlySubtraction\<close> sends the call to the general branch, which offers
  subtractions from a positive state.)
\<close>

theorem getAvailableActions_nonneg:
  assumes "r \<in> {UnifiedSimpleRule rc, BrothersRule rc, FriendsRule rc, MixRule rc}"
    and "state = 0 \<or> (isFirst \<and> \<not> onlySubtraction (config_of r))"
    and "a \<in> set (getAvailableActions r state isFirst)"
  shows "0 \<le> a"
proof -
  consider "r = UnifiedSimpleRule rc" | "r = BrothersRule rc" | "r = FriendsRule rc" | "r = MixRule rc"
    using assms(1) by auto
  then show ?thesis
  proof cases
    case 1
    obtain c where c: "UnifiedSimpleRule rc = UnifiedSimple c"
      by (simp add: UnifiedSimpleRule_def Let_def)
    show ?thesis
      using assms(2,3) simple_digits_pos[OF c] simpleActions_nonneg[of state isFirst c a]
      by (auto simp: 1 c)
  next
    case 2
    have "\<And>d. d \<in> set (brothersDigits (BrothersRule rc)) \<Longrightarrow> 1 \<le> d"
      by (auto simp: BrothersRule_def Let_def digitsIn_def split: option.splits)
    then show ?thesis
      using assms(2,3) simpleBlockOf_pos[of _ rc]
      by (auto simp: 2 BrothersRule_def Let_def techConfig_def elim!: techActions_nonneg[rotated 3])
  next
    case 3
    have "\<And>d. d \<in> set (friendsDigits (FriendsRule rc)) \<Longrightarrow> 1 \<le> d"
      by (auto simp: FriendsRule_def Let_def digitsIn_def split: option.splits)
    then show ?thesis
      using assms(2,3) simpleBlockOf_pos[of _ rc]
      by (auto simp: 3 FriendsRule_def Let_def techConfig_def elim!: techActions_nonneg[rotated 3])
  next
    case 4
    have "\<And>d. d \<in> set (mixDigits (MixRule rc)) \<Longrightarrow> 1 \<le> d"
      by (auto simp: MixRule_def Let_def digitsIn_def split: option.splits)
    then show ?thesis
      using assms(2,3) simpleBlockOf_pos[of _ rc]
      by (auto simp: 4 MixRule_def Let_def techConfig_def elim!: techActions_nonneg[rotated 3])
  qed
qed

theorem getAvailableActions_nonneg_witness:
  "getAvailableActions (BrothersRule cfgFour) 0 True = [1, 2, 3, 4, 5, 4, 4, 4, 4, 4]
   \<and> (0::int) \<le> 4"
proof -
  have e: "getAvailableActions (BrothersRule cfgFour) 0 True = [1, 2, 3, 4, 5, 4, 4, 4, 4, 4]"
    by (simp add: BrothersRule_def cfgFour_def noConfig_def Let_def digitsIn_def techConfig_def
        simpleBlockOf_def orElse_def techActions_def inRange_def isBrotherTransition_def
        buildBrotherPairs_def upperBead_def lowerBeads_def getBrother_def upto.simps
        eval_nat_numeral)
  have "(4::int) \<in> set (getAvailableActions (BrothersRule cfgFour) 0 True)"
    by (simp add: e)
  then have "(0::int) \<le> 4"
    using getAvailableActions_nonneg[of "BrothersRule cfgFour" cfgFour 0 True 4] by simp
  with e show ?thesis by simp
qed

text \<open>
  The claim as stated fails on a first step with \<open>onlySubtraction\<close>: from state 3 the
  Simple rule offers only subtractions.
\<close>

theorem getAvailableActions_first_negative:
  "getAvailableActions (UnifiedSimpleRule cfgSimpleOnlySub) 3 True = [- 1, - 2, - 3]"
  by (simp add: UnifiedSimpleRule_def cfgSimpleOnlySub_def noConfig_def Let_def digitsIn_def
      orElse_def UnifiedSimpleRule_getAvailableActions_def inRange_def)

section \<open>The Brothers classifier\<close>

text \<open>
  Claim C7 does not hold of the table \<open>_buildBrotherPairs\<close> builds. With the digit 4,
  the step 0 \<rightarrow> 4 is classified as a brother transition although it stays below 5 and no
  lower bead is active that \<open>+5 - 1\<close> could remove; and 5 \<rightarrow> 1, which is \<open>-5 + 1\<close> with the
  upper bead active and room for one lower bead, is not classified.
\<close>

theorem brother_classifier_differs_from_spec:
  "isSignatureTransition (BrothersRule cfgFour) 0 4 \<and> \<not> brotherCrossing_spec 4 0 4
   \<and> \<not> isSignatureTransition (BrothersRule cfgFour) 5 1 \<and> brotherCrossing_spec 4 5 1"
  by (simp add: BrothersRule_def cfgFour_def noConfig_def Let_def digitsIn_def buildBrotherPairs_def
      isBrotherTransition_def brotherCrossing_spec_def upperBead_def lowerBeads_def
      getBrother_def upto.simps)

section \<open>Decomposition into micro-steps\<close>

lemma mixEntry_sum:
  "(\<And>k ms. m k = Some ms \<Longrightarrow> sum_list (map ms_action ms) = k) \<Longrightarrow>
   mixEntry a m k = Some ms \<Longrightarrow> sum_list (map ms_action ms) = k"
  by (auto simp: mixEntry_def Let_def getFriend_def split: if_splits)

lemma fold_mixEntry_sum:
  "(\<And>k ms. m k = Some ms \<Longrightarrow> sum_list (map ms_action ms) = k) \<Longrightarrow>
   fold mixEntry ds m k = Some ms \<Longrightarrow> sum_list (map ms_action ms) = k"
proof (induction ds arbitrary: m)
  case Nil
  then show ?case by simp
next
  case (Cons a ds)
  have "\<And>k ms. mixEntry a m k = Some ms \<Longrightarrow> sum_list (map ms_action ms) = k"
    using Cons.prems(1) mixEntry_sum by blast
  then show ?case using Cons.IH[of "mixEntry a m"] Cons.prems(2) by simp
qed

lemma Mix_decompose_sum:
  "sum_list (map ms_action (MixRule_decomposeAction (buildMixCombinations ds) a)) = a"
  using fold_mixEntry_sum[of Map.empty ds a]
  by (auto simp: MixRule_decomposeAction_def buildMixCombinations_def split: option.splits)

lemma Brothers_decompose_sum:
  "sum_list (map ms_action (BrothersRule_decomposeAction ds ps s a)) = a"
  by (auto simp: BrothersRule_decomposeAction_def getBrother_def Let_def)

text \<open>
  The micro-steps \<open>decomposeAction\<close> returns sum to the action it was given, for
  \<open>BrothersRule\<close> and for \<open>MixRule\<close>, at every state and action.
\<close>

lemma decomposeAction_sum:
  "sum_list (map ms_action
      (BrothersRule_decomposeAction (brothersDigits (BrothersRule rc))
         (brotherPairs (BrothersRule rc)) s a)) = a
   \<and> sum_list (map ms_action (MixRule_decomposeAction (mixCombinations (MixRule rcm)) a)) = a"
  using Mix_decompose_sum Brothers_decompose_sum by (simp add: MixRule_def Let_def)

text \<open>
  With the digit 4, every addition that the specification's condition makes a brother
  transition (from the states 1 to 4) is decomposed into \<open>[+5, -1]\<close>.
\<close>

lemma brother_plus_four_decomposition:
  assumes "brotherCrossing_spec 4 s (s + 4)"
  shows "map ms_action (BrothersRule_decomposeAction (brothersDigits (BrothersRule cfgFour))
           (brotherPairs (BrothersRule cfgFour)) s 4) = [5, - 1]"
proof -
  have "s = 1 \<or> s = 2 \<or> s = 3 \<or> s = 4"
    using assms by (auto simp: brotherCrossing_spec_def upperBead_def lowerBeads_def split: if_splits)
  then show ?thesis
    by (auto simp: BrothersRule_def cfgFour_def noConfig_def Let_def digitsIn_def
        buildBrotherPairs_def isBrotherTransition_def upperBead_def lowerBeads_def
        getBrother_def upto.simps BrothersRule_decomposeAction_def)
qed

text \<open>
  Claim C8 does not hold of the subtractions. With the digit 4, the steps 5 \<rightarrow> 1,
  6 \<rightarrow> 2, 7 \<rightarrow> 3 and 8 \<rightarrow> 4 are the brother transitions by \<open>-4\<close> (the upper bead is
  active and there is room for one more lower bead), and \<open>decomposeAction\<close> returns the
  single micro-step \<open>[-4]\<close> for each of them instead of \<open>[-5, +1]\<close>: it asks the table
  of \<open>_buildBrotherPairs\<close>, which holds none of them. The table holds 9 \<rightarrow> 5 and 0 \<rightarrow> 4
  instead, which cross no boundary, and these are decomposed into \<open>[-5, +1]\<close> and
  \<open>[+5, -1]\<close>.
\<close>

theorem brother_decomposition_differs_from_spec:
  "brotherCrossing_spec 4 5 (5 + (- 4))
   \<and> map ms_action (BrothersRule_decomposeAction (brothersDigits (BrothersRule cfgFour))
        (brotherPairs (BrothersRule cfgFour)) 5 (- 4)) = [- 4]
   \<and> brotherCrossing_spec 4 6 (6 + (- 4))
   \<and> map ms_action (BrothersRule_decomposeAction (brothersDigits (BrothersRule cfgFour))
        (brotherPairs (BrothersRule cfgFour)) 6 (- 4)) = [- 4]
   \<and> brotherCrossing_spec 4 7 (7 + (- 4))
   \<and> map ms_action (BrothersRule_decomposeAction (brothersDigits (BrothersRule cfgFour))
        (brotherPairs (BrothersRule cfgFour)) 7 (- 4)) = [- 4]
   \<and> brotherCrossing_spec 4 8 (8 + (- 4))
   \<and> map ms_action (BrothersRule_decomposeAction (brothersDigits (BrothersRule cfgFour))
        (brotherPairs (BrothersRule cfgFour)) 8 (- 4)) = [- 4]
   \<and> \<not> brotherCrossing_spec 4 9 (9 + (- 4))
   \<and> map ms_action (BrothersRule_decomposeAction (brothersDigits (BrothersRule cfgFour))
        (brotherPairs (BrothersRule cfgFour)) 9 (- 4)) = [- 5, 1]
   \<and> \<not> brotherCrossing_spec 4 0 (0 + 4)
   \<and> map ms_action (BrothersRule_decomposeAction (brothersDigits (BrothersRule cfgFour))
        (brotherPairs (BrothersRule cfgFour)) 0 4) = [5, - 1]"
  by (simp add: BrothersRule_def cfgFour_def noConfig_def Let_def digitsIn_def
      buildBrotherPairs_def isBrotherTransition_def upperBead_def lowerBeads_def
      getBrother_def upto.simps BrothersRule_decomposeAction_def brotherCrossing_spec_def)

section \<open>The base validator in multi-digit mode\<close>

lemma foldl_applyAction:
  "foldl (\<lambda>s st. applyAction s (action st)) s sts = s + sum_list (map action sts)"
  by (induction sts arbitrary: s) (auto simp: applyAction_def)

text \<open>
  Claim C10, as the code has it. When \<open>digitCount > 1\<close>, \<open>BaseRule.validateExample\<close>
  checks no intermediate state: an example with at least one step is accepted exactly when
  its steps re-sum to its answer and respect the \<open>onlyAddition\<close> and
  \<open>onlySubtraction\<close> flags. (An example without steps is rejected first.)
\<close>

theorem BaseRule_validateExample_multi_digit:
  assumes "digitCount c > 1" and "steps ex \<noteq> []"
  shows "BaseRule_validateExample c ex \<longleftrightarrow>
     (start ex + sum_list (map action (steps ex)) = answer ex
      \<and> (onlyAddition c \<longrightarrow> (\<forall>st \<in> set (steps ex). action st \<ge> 0))
      \<and> (onlySubtraction c \<longrightarrow> (\<forall>st \<in> set (steps ex). action st \<le> 0)))"
proof -
  have 1: "list_ex (\<lambda>st. action st < 0) (steps ex) \<longleftrightarrow> \<not> (\<forall>st \<in> set (steps ex). action st \<ge> 0)"
    by (auto simp: list_ex_iff not_le)
  have 2: "list_ex (\<lambda>st. action st > 0) (steps ex) \<longleftrightarrow> \<not> (\<forall>st \<in> set (steps ex). action st \<le> 0)"
    by (auto simp: list_ex_iff not_le)
  show ?thesis
    using assms unfolding BaseRule_validateExample_def foldl_applyAction 1 2 by auto
qed

theorem BaseRule_validateExample_multi_digit_witness:
  "digitCount (config_of (UnifiedSimpleRule cfgTwoColumns)) > 1
   \<and> maxState (config_of (UnifiedSimpleRule cfgTwoColumns)) = 4
   \<and> statesFrom (start exEleven) (steps exEleven) = [11]
   \<and> BaseRule_validateExample (config_of (UnifiedSimpleRule cfgTwoColumns)) exEleven"
proof -
  have c: "config_of (UnifiedSimpleRule cfgTwoColumns) =
      \<lparr> selectedDigits = [1, 2, 3, 4], simpleBlockDigits = [], minState = 0, maxState = 4,
        minSteps = 3, maxSteps = 7, onlyAddition = False, onlySubtraction = False,
        digitCount = 2, combineLevels = False \<rparr>"
    by (simp add: UnifiedSimpleRule_def cfgTwoColumns_def noConfig_def Let_def digitsIn_def
        orElse_def)
  show ?thesis
    using BaseRule_validateExample_multi_digit[of "config_of (UnifiedSimpleRule cfgTwoColumns)" exEleven]
    by (simp add: c exEleven_def)
qed

text \<open>
  The claim as stated fails for an example without steps: it re-sums to its answer and
  breaks no flag, and is rejected.
\<close>

theorem BaseRule_validateExample_rejects_empty:
  "digitCount (config_of (UnifiedSimpleRule cfgTwoColumns)) > 1
   \<and> start exEmpty + sum_list (map action (steps exEmpty)) = answer exEmpty
   \<and> \<not> onlyAddition (config_of (UnifiedSimpleRule cfgTwoColumns))
   \<and> \<not> onlySubtraction (config_of (UnifiedSimpleRule cfgTwoColumns))
   \<and> \<not> BaseRule_validateExample (config_of (UnifiedSimpleRule cfgTwoColumns)) exEmpty"
  by (simp add: UnifiedSimpleRule_def cfgTwoColumns_def noConfig_def Let_def digitsIn_def
      orElse_def exEmpty_def BaseRule_validateExample_def)

section \<open>Invariants of the generators\<close>

lemma chained_snoc:
  "chained s (sts @ [st]) \<longleftrightarrow>
     chained s sts \<and> fromState st = s + sum_list (map action sts) \<and> toState st = fromState st + action st"
  by (induction sts arbitrary: s) (auto simp: algebra_simps)

lemma chained_take: "chained s sts \<Longrightarrow> chained s (take n sts)"
proof (induction sts arbitrary: s n)
  case Nil
  then show ?case by simp
next
  case (Cons a sts)
  then show ?case by (cases n) auto
qed

lemma chained_signature:
  "chained s sts \<Longrightarrow> hasSignatureStep isT s sts \<Longrightarrow> \<exists>st \<in> set sts. isT (fromState st) (toState st)"
  by (induction sts arbitrary: s) (auto split: if_splits)

lemma singleDigitLoop_inv:
  "singleDigitLoop r n i s0 cur sts rs = (Inr ex, rs') \<Longrightarrow> chained s0 sts \<Longrightarrow>
   cur = s0 + sum_list (map action sts) \<Longrightarrow>
   start ex = s0 \<and> chained s0 (steps ex) \<and> answer ex = s0 + sum_list (map action (steps ex))"
proof (induction n arbitrary: i cur sts rs)
  case 0
  then show ?case by auto
next
  case (Suc n)
  show ?case
  proof (cases "getAvailableActions r cur (i = 0) = []")
    case True
    with Suc.prems show ?thesis by simp
  next
    case False
    obtain x rs1 where d: "draw rs = (x, rs1)" by (cases "draw rs")
    let ?a = "pick (getAvailableActions r cur (i = 0)) x"
    let ?st = "\<lparr> action = ?a, fromState = cur, toState = applyAction cur ?a \<rparr>"
    have "singleDigitLoop r n (Suc i) s0 (applyAction cur ?a) (sts @ [?st]) rs1 = (Inr ex, rs')"
      using Suc.prems(1) False d by (simp add: Let_def)
    moreover have "chained s0 (sts @ [?st])"
      using Suc.prems(2,3) by (simp add: chained_snoc applyAction_def)
    moreover have "applyAction cur ?a = s0 + sum_list (map action (sts @ [?st]))"
      using Suc.prems(3) by (simp add: applyAction_def)
    ultimately show ?thesis by (rule Suc.IH)
  qed
qed

lemma multiDigitLoop_inv:
  "multiDigitLoop g n i s0 cur sts zeros rs = (Inr ex, rs') \<Longrightarrow> chained s0 sts \<Longrightarrow>
   cur = s0 + sum_list (map action sts) \<Longrightarrow>
   start ex = s0 \<and> chained s0 (steps ex) \<and> answer ex = s0 + sum_list (map action (steps ex))"
proof (induction n arbitrary: i cur sts zeros rs)
  case 0
  then show ?case by auto
next
  case (Suc n)
  obtain oa z1 rs1 where g: "generateMultiDigitAction g cur (i = 0) zeros rs = (oa, z1, rs1)"
    by (cases "generateMultiDigitAction g cur (i = 0) zeros rs") auto
  show ?case
  proof (cases oa)
    case None
    with Suc.prems g show ?thesis by simp
  next
    case (Some a)
    let ?st = "\<lparr> action = a, fromState = cur, toState = cur + a \<rparr>"
    have "multiDigitLoop g n (Suc i) s0 (cur + a) (sts @ [?st]) z1 rs1 = (Inr ex, rs')"
      using Suc.prems(1) g Some by (simp add: Let_def split: if_splits)
    moreover have "chained s0 (sts @ [?st])"
      using Suc.prems(2,3) by (simp add: chained_snoc)
    moreover have "cur + a = s0 + sum_list (map action (sts @ [?st]))"
      using Suc.prems(3) by simp
    ultimately show ?thesis by (rule Suc.IH)
  qed
qed

lemma vectorLoop_independent_inv:
  "vectorLoop r n i v0 vec sts rs = (Inr ex, rs') \<Longrightarrow> \<not> combineLevels (config_of r) \<Longrightarrow>
   chained (vectorToNumber v0) sts \<Longrightarrow>
   vectorToNumber vec = vectorToNumber v0 + sum_list (map action sts) \<Longrightarrow>
   start ex = vectorToNumber v0 \<and> chained (vectorToNumber v0) (steps ex)
     \<and> answer ex = vectorToNumber v0 + sum_list (map action (steps ex))"
proof (induction n arbitrary: i vec sts rs)
  case 0
  then show ?case by auto
next
  case (Suc n)
  obtain nv rs1 where d: "independentColumns r (i = 0) vec rs = (nv, rs1)"
    by (cases "independentColumns r (i = 0) vec rs")
  let ?st = "\<lparr> action = vectorToNumber nv - vectorToNumber vec, fromState = vectorToNumber vec,
               toState = vectorToNumber nv \<rparr>"
  have "vectorLoop r n (Suc i) v0 nv (sts @ [?st]) rs1 = (Inr ex, rs')"
    using Suc.prems(1,2) d by (simp add: Let_def)
  moreover have "chained (vectorToNumber v0) (sts @ [?st])"
    using Suc.prems(3,4) by (simp add: chained_snoc)
  moreover have "vectorToNumber nv = vectorToNumber v0 + sum_list (map action (sts @ [?st]))"
    using Suc.prems(4) by simp
  ultimately show ?thesis using Suc.IH Suc.prems(2) by blast
qed

lemma vectorLoop_start:
  "vectorLoop r n i v0 vec sts rs = (Inr ex, rs') \<Longrightarrow> start ex = vectorToNumber v0"
proof (induction n arbitrary: i vec sts rs)
  case 0
  then show ?case by auto
next
  case (Suc n)
  then show ?case
    by (auto simp: Let_def split: if_splits prod.splits)
qed

lemma foldl_enum_zero:
  "foldl (\<lambda>sum (idx, val). sum + val * (10::int) ^ (m - 1 - idx)) a (enumerate k (replicate n 0)) = a"
  by (induction n arbitrary: a k) auto

lemma vectorToNumber_zeros: "vectorToNumber (replicate n 0) = 0"
  unfolding vectorToNumber_def using foldl_enum_zero[of "length (replicate n (0::int))" 0 0 n] by simp

lemma truncateExample_start: "start (truncateExample m ex) = start ex"
  by (simp add: truncateExample_def Let_def)

lemma sliceTo_take: "\<exists>k. sliceTo e xs = take k xs"
  by (auto simp: sliceTo_def)

lemma foldl_plus_action: "foldl (\<lambda>fs st. fs + action st) s sts = s + sum_list (map action sts)"
  by (induction sts arbitrary: s) auto

lemma truncateExample_inv:
  assumes "chained (start ex) (steps ex)" and "answer ex = start ex + sum_list (map action (steps ex))"
  shows "chained (start (truncateExample m ex)) (steps (truncateExample m ex))
     \<and> answer (truncateExample m ex) =
         start (truncateExample m ex) + sum_list (map action (steps (truncateExample m ex)))"
proof -
  obtain k where k: "sliceTo m (steps ex) = take k (steps ex)" using sliceTo_take by blast
  show ?thesis using assms chained_take[of "start ex" "steps ex" k]
    by (simp add: truncateExample_def Let_def k foldl_plus_action)
qed

lemma single_attempt_inv:
  assumes "generateSingleDigitAttempt r rs = (Inr ex, rs')"
  shows "start ex = 0 \<and> chained 0 (steps ex) \<and> answer ex = 0 + sum_list (map action (steps ex))"
proof -
  obtain n rs1 where n: "generateStepsCount (config_of r) rs = (n, rs1)"
    by (cases "generateStepsCount (config_of r) rs")
  have "singleDigitLoop r (nat n) 0 0 0 [] rs1 = (Inr ex, rs')"
    using assms n by (simp add: generateSingleDigitAttempt_def Let_def)
  then show ?thesis using singleDigitLoop_inv[of r "nat n" 0 0 0 "[]" rs1 ex rs'] by simp
qed

lemma vector_attempt_start:
  assumes "generateMultiDigitAttemptVectorBased r rs = (Inr ex, rs')"
  shows "start ex = 0"
proof -
  obtain n rs1 where n: "generateStepsCount (config_of r) rs = (n, rs1)"
    by (cases "generateStepsCount (config_of r) rs")
  let ?v = "replicate (nat (orOne (digitCount (config_of r)))) (0::int)"
  have "vectorLoop r (nat n) 0 ?v ?v [] rs1 = (Inr ex, rs')"
    using assms n by (simp add: generateMultiDigitAttemptVectorBased_def Let_def split: if_splits)
  then show ?thesis using vectorLoop_start[of r "nat n" 0 ?v ?v "[]" rs1 ex rs']
    by (simp add: vectorToNumber_zeros)
qed

lemma vector_attempt_inv:
  assumes "generateMultiDigitAttemptVectorBased r rs = (Inr ex, rs')" and "\<not> combineLevels (config_of r)"
  shows "chained 0 (steps ex) \<and> answer ex = 0 + sum_list (map action (steps ex))"
proof -
  obtain n rs1 where n: "generateStepsCount (config_of r) rs = (n, rs1)"
    by (cases "generateStepsCount (config_of r) rs")
  let ?v = "replicate (nat (orOne (digitCount (config_of r)))) (0::int)"
  have "vectorLoop r (nat n) 0 ?v ?v [] rs1 = (Inr ex, rs')"
    using assms n by (simp add: generateMultiDigitAttemptVectorBased_def Let_def split: if_splits)
  then show ?thesis
    using vectorLoop_independent_inv[of r "nat n" 0 ?v ?v "[]" rs1 ex rs'] assms(2)
    by (simp add: vectorToNumber_zeros)
qed

lemma attempt_start:
  assumes "attempt r rs = (Inr ex, rs')"
  shows "start ex = 0"
proof (cases "orOne (digitCount (config_of r)) = 1")
  case True
  obtain res rs1 where a: "generateSingleDigitAttempt r rs = (res, rs1)"
    by (cases "generateSingleDigitAttempt r rs")
  then obtain ex0 where "res = Inr ex0" "ex = truncateExample (maxSteps (config_of r)) ex0"
    using assms True by (auto simp: attempt_def split: sum.splits)
  then show ?thesis using single_attempt_inv[of r rs ex0 rs1] a by (simp add: truncateExample_start)
next
  case False
  obtain res rs1 where a: "generateMultiDigitAttemptVectorBased r rs = (res, rs1)"
    by (cases "generateMultiDigitAttemptVectorBased r rs")
  then obtain ex0 where "res = Inr ex0" "ex = truncateExample (maxSteps (config_of r)) ex0"
    using assms False by (auto simp: attempt_def split: sum.splits)
  then show ?thesis using vector_attempt_start[of r rs ex0 rs1] a by (simp add: truncateExample_start)
qed

lemma attempt_chained:
  assumes "attempt r rs = (Inr ex, rs')" and "\<not> lockStep r"
  shows "chained (start ex) (steps ex) \<and> answer ex = start ex + sum_list (map action (steps ex))"
proof (cases "orOne (digitCount (config_of r)) = 1")
  case True
  obtain res rs1 where a: "generateSingleDigitAttempt r rs = (res, rs1)"
    by (cases "generateSingleDigitAttempt r rs")
  then obtain ex0 where e: "res = Inr ex0" "ex = truncateExample (maxSteps (config_of r)) ex0"
    using assms True by (auto simp: attempt_def split: sum.splits)
  have "chained (start ex0) (steps ex0) \<and> answer ex0 = start ex0 + sum_list (map action (steps ex0))"
    using single_attempt_inv[of r rs ex0 rs1] a e by simp
  then show ?thesis using truncateExample_inv[of ex0] e by simp
next
  case False
  obtain res rs1 where a: "generateMultiDigitAttemptVectorBased r rs = (res, rs1)"
    by (cases "generateMultiDigitAttemptVectorBased r rs")
  then obtain ex0 where e: "res = Inr ex0" "ex = truncateExample (maxSteps (config_of r)) ex0"
    using assms False by (auto simp: attempt_def split: sum.splits)
  have nc: "\<not> combineLevels (config_of r)" using assms(2) False by (simp add: lockStep_def)
  have "chained (start ex0) (steps ex0) \<and> answer ex0 = start ex0 + sum_list (map action (steps ex0))"
    using vector_attempt_inv[of r rs ex0 rs1] vector_attempt_start[of r rs ex0 rs1] a e nc by simp
  then show ?thesis using truncateExample_inv[of ex0] e by simp
qed

lemma attemptLoop_cases:
  "attemptLoop r k rs = ex \<Longrightarrow>
   ex = generateFallbackExample \<or> (validateExample r ex \<and> (\<exists>rs0 rs1. attempt r rs0 = (Inr ex, rs1)))"
proof (induction k arbitrary: rs)
  case 0
  then show ?case by simp
next
  case (Suc k)
  obtain res rs1 where a: "attempt r rs = (res, rs1)" by (cases "attempt r rs")
  show ?case
  proof (cases res)
    case (Inl e)
    then show ?thesis using Suc a by simp
  next
    case (Inr ex0)
    show ?thesis
    proof (cases "validateExample r ex0")
      case True
      then have "ex = ex0" using Suc.prems a Inr by simp
      then show ?thesis using True a Inr by blast
    next
      case False
      then show ?thesis using Suc a Inr by simp
    qed
  qed
qed

lemma multiDigitAttempts_cases:
  "multiDigitAttempts g sc k rs = Inr ex \<Longrightarrow>
   validateExample (baseRule g) ex \<and> (\<exists>rs0 rs1. generateAttempt g sc rs0 = (Inr ex, rs1))"
proof (induction k arbitrary: rs)
  case 0
  then show ?case by simp
next
  case (Suc k)
  obtain res rs1 where a: "generateAttempt g sc rs = (res, rs1)" by (cases "generateAttempt g sc rs")
  show ?case
  proof (cases res)
    case (Inl e)
    then show ?thesis using Suc a by simp
  next
    case (Inr ex0)
    show ?thesis
    proof (cases "validateExample (baseRule g) ex0")
      case True
      then have "ex = ex0" using Suc.prems a Inr by simp
      then show ?thesis using True a Inr by blast
    next
      case False
      then show ?thesis using Suc a Inr by simp
    qed
  qed
qed

lemma generateAttempt_inv:
  assumes "generateAttempt g sc rs = (Inr ex, rs')"
  shows "start ex = 0 \<and> chained 0 (steps ex) \<and> answer ex = 0 + sum_list (map action (steps ex))"
  using assms multiDigitLoop_inv[of g "nat sc" 0 0 0 "[]" 0 rs ex rs']
  by (simp add: generateAttempt_def)

lemma never_valid_fails:
  "(\<And>ex. \<not> validateExample (baseRule g) ex) \<Longrightarrow> multiDigitAttempts g sc k rs = Inl GenerationFailed"
  by (induction k arbitrary: rs) (auto split: prod.splits sum.splits)

lemma statesFrom_prefix:
  "0 < n \<Longrightarrow> n \<le> length sts \<Longrightarrow> s + sum_list (map action (take n sts)) \<in> set (statesFrom s sts)"
proof (induction sts arbitrary: s n)
  case Nil
  then show ?case by simp
next
  case (Cons a sts)
  then show ?case
  proof (cases n)
    case 0
    with Cons show ?thesis by simp
  next
    case (Suc m)
    show ?thesis
    proof (cases "m = 0")
      case True
      with Suc show ?thesis by simp
    next
      case False
      then have "s + action a + sum_list (map action (take m sts)) \<in> set (statesFrom (s + action a) sts)"
        using Cons.IH[of m "s + action a"] Cons.prems Suc by simp
      then show ?thesis using Suc by (simp add: algebra_simps)
    qed
  qed
qed

lemma tech_valid:
  "techValidateExample isT hi c ex \<Longrightarrow>
     hasSignatureStep isT (start ex) (steps ex)
     \<and> (\<forall>x \<in> set (statesFrom (start ex) (steps ex)). 0 \<le> x \<and> x \<le> hi)"
  by (auto simp: techValidateExample_def list_ex_iff split: if_splits)

lemma allPhysicallyPossible_states:
  "allPhysicallyPossible c s sts \<Longrightarrow> x \<in> set (statesFrom s sts) \<Longrightarrow> 0 \<le> x \<and> x \<le> maxState c"
proof (induction sts arbitrary: s)
  case Nil
  then show ?case by simp
next
  case (Cons a sts)
  have p: "isPhysicallyPossible c s (action a)" and r: "allPhysicallyPossible c (s + action a) sts"
    using Cons.prems(1) by (auto simp: applyAction_def split: if_splits)
  have b: "0 \<le> s + action a \<and> s + action a \<le> maxState c"
    using p by (auto simp: isPhysicallyPossible_def Let_def split: if_splits)
  show ?case using Cons.prems(2) b Cons.IH[OF r] by auto
qed

lemma validate_bounds:
  assumes "validateExample (newRule k rc) ex" and "x \<in> set (statesFrom (start ex) (steps ex))"
  shows "0 \<le> x \<and> x \<le> maxState (config_of (newRule k rc))"
proof (cases k)
  case UnifiedSimpleRuleClass
  obtain c where c: "UnifiedSimpleRule rc = UnifiedSimple c" by (simp add: UnifiedSimpleRule_def Let_def)
  then have "allPhysicallyPossible c (start ex) (steps ex)"
    using assms(1) UnifiedSimpleRuleClass by (simp add: UnifiedSimpleRule_validateExample_def split: if_splits)
  then show ?thesis using allPhysicallyPossible_states assms(2) UnifiedSimpleRuleClass c by simp
next
  case BrothersRuleClass
  then show ?thesis using assms tech_valid
    by (fastforce simp: BrothersRule_def Let_def techConfig_def)
next
  case FriendsRuleClass
  then show ?thesis using assms tech_valid
    by (fastforce simp: FriendsRule_def Let_def techConfig_def)
next
  case MixRuleClass
  then show ?thesis using assms tech_valid
    by (fastforce simp: MixRule_def Let_def techConfig_def)
qed

lemma maxState_newRule:
  "maxState (config_of (newRule k rc)) \<in>
     (case k of UnifiedSimpleRuleClass \<Rightarrow> {4, 9} | BrothersRuleClass \<Rightarrow> {9}
              | FriendsRuleClass \<Rightarrow> {99} | MixRuleClass \<Rightarrow> {99})"
  by (cases k) (auto simp: UnifiedSimpleRule_def BrothersRule_def FriendsRule_def MixRule_def
      Let_def techConfig_def)

lemma maxState_ge4: "4 \<le> maxState (config_of (newRule k rc))"
  using maxState_newRule[of k rc] by (cases k) auto

lemma fallback_prefix:
  "n \<le> length (steps generateFallbackExample) \<Longrightarrow>
   0 \<le> start generateFallbackExample + sum_list (map action (take n (steps generateFallbackExample)))
   \<and> start generateFallbackExample + sum_list (map action (take n (steps generateFallbackExample))) \<le> 4"
proof -
  assume "n \<le> length (steps generateFallbackExample)"
  then have "n = 0 \<or> n = 1 \<or> n = 2 \<or> n = 3" by (auto simp: generateFallbackExample_def)
  then show ?thesis by (auto simp: generateFallbackExample_def eval_nat_numeral)
qed

lemma generate_cases:
  assumes "gr = PlainRule (newRule k rc) \<or> gr = MultiDigitRule (MultiDigitGenerator k m rc v)"
    and "ExampleGenerator_generate gr rs = Inr ex"
  shows "ex = generateFallbackExample \<or> (validateExample (newRule k rc) ex \<and> start ex = 0)"
proof -
  consider (p) "gr = PlainRule (newRule k rc)" | (m) "gr = MultiDigitRule (MultiDigitGenerator k m rc v)"
    using assms(1) by blast
  then show ?thesis
  proof cases
    case p
    then have "attemptLoop (newRule k rc) (maxAttempts (config_of (newRule k rc))) rs = ex"
      using assms(2) by simp
    then show ?thesis using attemptLoop_cases attempt_start by blast
  next
    case m
    let ?g = "MultiDigitGenerator k m rc v"
    have b: "baseRule ?g = newRule k rc" by (simp add: MultiDigitGenerator_def Let_def)
    obtain sc rs1 where "multiDigitAttempts ?g sc 500 rs1 = Inr ex"
      using assms(2) m
      by (auto simp: MultiDigitGenerator_generateExample_def Let_def split: prod.splits if_splits)
    then show ?thesis using multiDigitAttempts_cases[of ?g sc 500 rs1 ex] generateAttempt_inv b by auto
  qed
qed

lemma base_valid_sum:
  "BaseRule_validateExample c ex \<Longrightarrow> answer ex = start ex + sum_list (map action (steps ex))"
  by (auto simp: BaseRule_validateExample_def foldl_applyAction split: if_splits)

text \<open>
  What the generators do guarantee about the answer: it is the start plus the sum of the
  actions, unless the columns of a Brothers, Friends or Mix rule run in lock-step.
\<close>

lemma generated_answer_is_sum:
  assumes "gr = PlainRule (newRule k rc) \<or> gr = MultiDigitRule (MultiDigitGenerator k m rc v)"
    and "ExampleGenerator_generate gr rs = Inr ex"
    and "\<not> (gr = PlainRule (newRule k rc) \<and> lockStep (newRule k rc) \<and> k \<noteq> UnifiedSimpleRuleClass)"
  shows "answer ex = start ex + sum_list (map action (steps ex))"
proof -
  consider (p) "gr = PlainRule (newRule k rc)" | (m) "gr = MultiDigitRule (MultiDigitGenerator k m rc v)"
    using assms(1) by blast
  then show ?thesis
  proof cases
    case p
    then have "attemptLoop (newRule k rc) (maxAttempts (config_of (newRule k rc))) rs = ex"
      using assms(2) by simp
    then consider (f) "ex = generateFallbackExample"
      | (v) rs0 rs1 where "validateExample (newRule k rc) ex" "attempt (newRule k rc) rs0 = (Inr ex, rs1)"
      using attemptLoop_cases by blast
    then show ?thesis
    proof cases
      case f
      then show ?thesis by (simp add: generateFallbackExample_def)
    next
      case v
      show ?thesis
      proof (cases "lockStep (newRule k rc)")
        case False
        then show ?thesis using attempt_chained v(2) by blast
      next
        case True
        then have "k = UnifiedSimpleRuleClass" using assms(3) p by blast
        then obtain c where "newRule k rc = UnifiedSimple c"
          by (simp add: UnifiedSimpleRule_def Let_def)
        then have "BaseRule_validateExample c ex"
          using v(1) by (simp add: UnifiedSimpleRule_validateExample_def split: if_splits)
        then show ?thesis by (rule base_valid_sum)
      qed
    qed
  next
    case m
    let ?g = "MultiDigitGenerator k m rc v"
    obtain sc rs1 where "multiDigitAttempts ?g sc 500 rs1 = Inr ex"
      using assms(2) m
      by (auto simp: MultiDigitGenerator_generateExample_def Let_def split: prod.splits if_splits)
    then show ?thesis using multiDigitAttempts_cases[of ?g sc 500 rs1 ex] generateAttempt_inv by auto
  qed
qed

lemma validate_signature:
  assumes "validateExample (newRule k rc) ex" and "k \<noteq> UnifiedSimpleRuleClass"
  shows "hasSignatureStep (isSignatureTransition (newRule k rc)) (start ex) (steps ex)"
proof (cases k)
  case UnifiedSimpleRuleClass
  then show ?thesis using assms(2) by simp
next
  case BrothersRuleClass
  obtain c ds ps where r: "BrothersRule rc = Brothers c ds ps" by (simp add: BrothersRule_def Let_def)
  have "isSignatureTransition (Brothers c ds ps) = isBrotherTransition ds ps" by (intro ext) simp
  then show ?thesis using assms(1) BrothersRuleClass r tech_valid by fastforce
next
  case FriendsRuleClass
  obtain c ds ps where r: "FriendsRule rc = Friends c ds ps" by (simp add: FriendsRule_def Let_def)
  have "isSignatureTransition (Friends c ds ps) = isFriendTransition ds ps" by (intro ext) simp
  then show ?thesis using assms(1) FriendsRuleClass r tech_valid by fastforce
next
  case MixRuleClass
  then show ?thesis using assms(1) MixRule_validate_False by simp
qed

lemma generate_exFive: "ExampleGenerator_generate (PlainRule (newRule BrothersRuleClass cfgFour)) [2, 3, 4, 5, 6, 7, 8, 9, 10] = Inr exFive"
  by code_simp

lemma budgetExhausted_fallback:
  "budgetExhausted r k rs \<Longrightarrow> attemptLoop r k rs = generateFallbackExample"
  by (induction k arbitrary: rs) (auto split: prod.splits sum.splits)

lemma mix_multi_fails:
  "selectedDigits (config_of (MixRule rc)) \<noteq> [] \<Longrightarrow>
   ExampleGenerator_generate (MultiDigitRule (MultiDigitGenerator MixRuleClass m rc v)) rs = Inl GenerationFailed"
  using never_valid_fails[of "MultiDigitGenerator MixRuleClass m rc v"] MixRule_validate_False
  by (simp add: MultiDigitGenerator_generateExample_def MultiDigitGenerator_def Let_def split: prod.splits)

section \<open>The answer of a generated example\<close>

text \<open>
  Claim C1 does not hold of the lock-step branch of the vector generation. A Friends rule
  has two columns by default; with \<open>combineLevels\<close> the drawn actions \<open>+5\<close>, \<open>+9\<close>
  and \<open>+1\<close> are applied to both columns and recorded as they are, while the states and
  the answer are the numbers the two columns spell. \<open>FriendsRule.validateExample\<close>, which
  does not compare the answer, accepts the example: its answer is 165 and its actions sum
  to 15.
\<close>

theorem lock_step_answer_differs_from_sum:
  "ExampleGenerator_generate (PlainRule (FriendsRule cfgLockStep)) [0, 4, 5, 0] = Inr exLockStep
   \<and> start exLockStep + sum_list (map action (steps exLockStep)) = 15
   \<and> answer exLockStep = 165"
  by code_simp

section \<open>Bounds of the running sum\<close>

text \<open>
  Claim C5. Whatever \<open>ExampleGenerator.generate\<close> returns for one of the four rules, used
  directly or wrapped in a \<open>MultiDigitGenerator\<close>, every prefix of its steps has a running
  sum between 0 and the rule's \<open>maxState\<close>, which is 4 or 9 for Simple, 9 for Brothers
  and 99 for Friends and Mix.
\<close>

theorem generated_states_within_bounds:
  assumes "gr = PlainRule (newRule k rc) \<or> gr = MultiDigitRule (MultiDigitGenerator k m rc v)"
    and "ExampleGenerator_generate gr rs = Inr ex"
    and "n \<le> length (steps ex)"
  shows "0 \<le> start ex + sum_list (map action (take n (steps ex)))
     \<and> start ex + sum_list (map action (take n (steps ex))) \<le> maxState (config_of (newRule k rc))
     \<and> maxState (config_of (newRule k rc)) \<in>
         (case k of UnifiedSimpleRuleClass \<Rightarrow> {4, 9} | BrothersRuleClass \<Rightarrow> {9}
                  | FriendsRuleClass \<Rightarrow> {99} | MixRuleClass \<Rightarrow> {99})"
proof -
  have "ex = generateFallbackExample \<or> (validateExample (newRule k rc) ex \<and> start ex = 0)"
    using generate_cases[OF assms(1,2)] .
  then have "0 \<le> start ex + sum_list (map action (take n (steps ex)))
     \<and> start ex + sum_list (map action (take n (steps ex))) \<le> maxState (config_of (newRule k rc))"
  proof
    assume "ex = generateFallbackExample"
    then show ?thesis using fallback_prefix[of n] assms(3) maxState_ge4[of k rc] by auto
  next
    assume v: "validateExample (newRule k rc) ex \<and> start ex = 0"
    show ?thesis
    proof (cases "n = 0")
      case True
      then show ?thesis using v maxState_ge4[of k rc] by simp
    next
      case False
      then have "start ex + sum_list (map action (take n (steps ex))) \<in> set (statesFrom (start ex) (steps ex))"
        using statesFrom_prefix assms(3) by simp
      then show ?thesis using validate_bounds v by blast
    qed
  qed
  then show ?thesis using maxState_newRule[of k rc] by simp
qed

theorem generated_states_within_bounds_witness:
  "ExampleGenerator_generate (PlainRule (newRule BrothersRuleClass cfgFour)) [2, 3, 4, 5, 6, 7, 8, 9, 10]
     = Inr exFive
   \<and> (3::nat) \<le> length (steps exFive)
   \<and> start exFive + sum_list (map action (take 3 (steps exFive))) = 5
   \<and> maxState (config_of (newRule BrothersRuleClass cfgFour)) = 9"
proof -
  have l: "(3::nat) \<le> length (steps exFive)" by (simp add: exFive_def)
  have s: "start exFive + sum_list (map action (take 3 (steps exFive))) = 5"
    by (simp add: exFive_def eval_nat_numeral)
  show ?thesis
    using generated_states_within_bounds[of "PlainRule (newRule BrothersRuleClass cfgFour)"
        BrothersRuleClass cfgFour 2 None "[2, 3, 4, 5, 6, 7, 8, 9, 10]" exFive 3]
      generate_exFive l s
    by simp
qed

section \<open>Signature steps of a generated example\<close>

text \<open>
  Claim C2, as the code has it. For the Brothers, Friends and Mix rules, an example that
  \<open>ExampleGenerator.generate\<close> returns and that is not the fallback example has a step at
  which the transition from the running state (the start plus the actions before it) is a
  signature transition of the rule; and unless the columns run in lock-step, that
  transition is the \<open>(fromState, toState)\<close> of the step.
\<close>

theorem signature_step_unless_fallback:
  assumes "k \<in> {BrothersRuleClass, FriendsRuleClass, MixRuleClass}"
    and "gr = PlainRule (newRule k rc) \<or> gr = MultiDigitRule (MultiDigitGenerator k m rc v)"
    and "ExampleGenerator_generate gr rs = Inr ex"
    and "ex \<noteq> generateFallbackExample"
  shows "hasSignatureStep (isSignatureTransition (newRule k rc)) (start ex) (steps ex)
     \<and> (\<not> (gr = PlainRule (newRule k rc) \<and> lockStep (newRule k rc)) \<longrightarrow>
          (\<exists>st \<in> set (steps ex). isSignatureTransition (newRule k rc) (fromState st) (toState st)))"
proof -
  have k: "k \<noteq> UnifiedSimpleRuleClass" using assms(1) by auto
  have v: "validateExample (newRule k rc) ex"
    using generate_cases[OF assms(2,3)] assms(4) by blast
  have h: "hasSignatureStep (isSignatureTransition (newRule k rc)) (start ex) (steps ex)"
    using validate_signature[OF v k] .
  have "\<exists>st \<in> set (steps ex). isSignatureTransition (newRule k rc) (fromState st) (toState st)"
    if nl: "\<not> (gr = PlainRule (newRule k rc) \<and> lockStep (newRule k rc))"
  proof -
    have "chained (start ex) (steps ex)"
    proof -
      consider (p) "gr = PlainRule (newRule k rc)" | (m) "gr = MultiDigitRule (MultiDigitGenerator k m rc v)"
        using assms(2) by blast
      then show ?thesis
      proof cases
        case p
        then have "attemptLoop (newRule k rc) (maxAttempts (config_of (newRule k rc))) rs = ex"
          using assms(3) by simp
        then obtain rs0 rs1 where "attempt (newRule k rc) rs0 = (Inr ex, rs1)"
          using attemptLoop_cases assms(4) by blast
        then show ?thesis using attempt_chained nl p by blast
      next
        case m
        let ?g = "MultiDigitGenerator k m rc v"
        obtain sc rs1 where "multiDigitAttempts ?g sc 500 rs1 = Inr ex"
          using assms(3) m
          by (auto simp: MultiDigitGenerator_generateExample_def Let_def split: prod.splits if_splits)
        then show ?thesis using multiDigitAttempts_cases[of ?g sc 500 rs1 ex] generateAttempt_inv by auto
      qed
    qed
    then show ?thesis using chained_signature h by blast
  qed
  then show ?thesis using h by blast
qed

theorem signature_step_unless_fallback_witness:
  "ExampleGenerator_generate (PlainRule (newRule BrothersRuleClass cfgFour)) [2, 3, 4, 5, 6, 7, 8, 9, 10] = Inr exFive
   \<and> exFive \<noteq> generateFallbackExample
   \<and> \<not> lockStep (newRule BrothersRuleClass cfgFour)
   \<and> hasSignatureStep (isSignatureTransition (newRule BrothersRuleClass cfgFour)) (start exFive) (steps exFive)
   \<and> list_ex (\<lambda>st. isSignatureTransition (newRule BrothersRuleClass cfgFour) (fromState st) (toState st))
        (steps exFive)"
proof -
  have ne: "exFive \<noteq> generateFallbackExample" by (simp add: exFive_def generateFallbackExample_def)
  have nl: "\<not> lockStep (newRule BrothersRuleClass cfgFour)" by code_simp
  show ?thesis
    using signature_step_unless_fallback[of BrothersRuleClass "PlainRule (newRule BrothersRuleClass cfgFour)"
        cfgFour 2 None "[2, 3, 4, 5, 6, 7, 8, 9, 10]" exFive] generate_exFive ne nl
    by (simp add: list_ex_iff)
qed

text \<open>
  The claim as stated fails for the fallback example: a Brothers rule restricted to
  subtraction has no action at state 0, every attempt throws, and the fallback that is
  returned has no brother step.
\<close>

theorem fallback_has_no_signature_step:
  "ExampleGenerator_generate (PlainRule (BrothersRule cfgBrothersOnlySub)) [] = Inr generateFallbackExample
   \<and> \<not> list_ex (\<lambda>st. isSignatureTransition (BrothersRule cfgBrothersOnlySub) (fromState st) (toState st))
        (steps generateFallbackExample)"
  by code_simp

section \<open>Exhausting the retry budget\<close>

text \<open>
  Claim C3, as the code has it. For a rule that is not a \<open>MultiDigitGenerator\<close>
  (single-column and vector generation), \<open>ExampleGenerator.generate\<close> never raises, and
  when its retry budget is exhausted it returns the fallback example, which has three
  steps, starts at 0 and whose answer is its start plus the sum of its actions.
\<close>

theorem fallback_when_budget_exhausted:
  "\<not> isl (ExampleGenerator_generate (PlainRule r) rs)
   \<and> (budgetExhausted r (maxAttempts (config_of r)) rs \<longrightarrow>
        ExampleGenerator_generate (PlainRule r) rs = Inr generateFallbackExample)
   \<and> start generateFallbackExample = 0
   \<and> length (steps generateFallbackExample) = 3
   \<and> answer generateFallbackExample =
       start generateFallbackExample + sum_list (map action (steps generateFallbackExample))"
  using budgetExhausted_fallback by (simp add: generateFallbackExample_def)

theorem fallback_when_budget_exhausted_witness:
  "budgetExhausted (BrothersRule cfgBrothersOnlySub) (maxAttempts (config_of (BrothersRule cfgBrothersOnlySub))) []
   \<and> ExampleGenerator_generate (PlainRule (BrothersRule cfgBrothersOnlySub)) [] = Inr generateFallbackExample"
proof -
  have b: "budgetExhausted (BrothersRule cfgBrothersOnlySub)
             (maxAttempts (config_of (BrothersRule cfgBrothersOnlySub))) []"
    by code_simp
  then show ?thesis
    using fallback_when_budget_exhausted[of "BrothersRule cfgBrothersOnlySub" "[]"] by blast
qed

text \<open>
  The claim as stated fails for multi-digit generation: \<open>MultiDigitGenerator.generateExample\<close>
  throws when its 500 attempts are used up, and \<open>generate\<close> passes the error on. With
  the Mix block on two digits no example is ever valid; \<open>generateExample\<close> of
  \<open>core/generator.js\<close> catches the error and answers \<open>+1 +2 -1 = 2\<close>.
\<close>

theorem multi_digit_exhaustion_raises:
  "ExampleGenerator_generate (MultiDigitRule (MultiDigitGenerator MixRuleClass 2 cfgMix (Some False))) []
     = Inl GenerationFailed
   \<and> ruleChoice mixSettings = (MixRuleClass, cfgMix)
   \<and> generateExample mixSettings [] = \<lparr> t_start = 0, t_steps = [1, 2, - 1], t_answer = 2 \<rparr>"
proof -
  have s: "selectedDigits (config_of (MixRule cfgMix)) \<noteq> []"
    by (simp add: MixRule_def cfgMix_def techConfig_def Let_def orElse_def)
  have f: "ExampleGenerator_generate (MultiDigitRule (MultiDigitGenerator MixRuleClass 2 cfgMix (Some False))) []
     = Inl GenerationFailed"
    using mix_multi_fails[OF s] .
  have c: "ruleChoice mixSettings = (MixRuleClass, cfgMix)"
    by (simp add: ruleChoice_def mixSettings_def cfgMix_def noConfig_def noBlocks_def blockDigits_def
        blockFlag_def nonEmptyOr_def digitsIn_def orElse_def Let_def)
  have "generateExample mixSettings [] = \<lparr> t_start = 0, t_steps = [1, 2, - 1], t_answer = 2 \<rparr>"
    unfolding generateExample_def c using f by (simp add: mixSettings_def)
  with f c show ?thesis by simp
qed

section \<open>Validation of the print settings\<close>

text \<open>
  Claim C9, as the code has it. \<open>PrintGenerator.generate\<close> raises exactly when the
  configuration the constructor stored violates a precondition: \<open>examplesCount\<close> outside
  \<open>[1, 1000]\<close>, \<open>actionsCount\<close> outside \<open>[1, 20]\<close>, \<open>digitCount\<close> outside \<open>[1, 9]\<close>,
  no block with digits, or the Friends or the Mix block with digits and \<open>digitCount < 2\<close>.
  The error does not depend on the random source (nothing is generated before it) and is
  the result of \<open>generate\<close>. The stored counts are the supplied ones with an absent or
  zero count replaced by its default (20, 5 and 1).
\<close>

theorem PrintGenerator_generate_raises_iff:
  "(let c = PrintGenerator ps; bs = printBlocks c in
    (isl (PrintGenerator_generate c src) \<longleftrightarrow>
       examplesCount c < 1 \<or> examplesCount c > 1000
       \<or> actionsCount c < 1 \<or> actionsCount c > 20
       \<or> printDigitCount c < 1 \<or> printDigitCount c > 9
       \<or> (blockDigits (simpleBlock bs) = [] \<and> blockDigits (brothersBlock bs) = []
            \<and> blockDigits (friendsBlock bs) = [] \<and> blockDigits (mixBlock bs) = [])
       \<or> (blockDigits (friendsBlock bs) \<noteq> [] \<and> printDigitCount c < 2)
       \<or> (blockDigits (mixBlock bs) \<noteq> [] \<and> printDigitCount c < 2))
    \<and> (isl (PrintGenerator_generate c src) \<longrightarrow>
         PrintGenerator_generate c src' = PrintGenerator_generate c src)
    \<and> examplesCount c = orDefault (ps_examplesCount ps) 20
    \<and> actionsCount c = orDefault (ps_actionsCount ps) 5
    \<and> printDigitCount c = orDefault (ps_digitCount ps) 1)"
  by (auto simp: Let_def PrintGenerator_generate_def validate_def hasActiveBlock_def blockActive_def
      PrintGenerator_def split: sum.splits if_splits)

theorem PrintGenerator_generate_raises_iff_witness:
  "isl (PrintGenerator_generate (PrintGenerator psFriendsOneDigit) noDraws)
   \<and> blockDigits (friendsBlock (printBlocks (PrintGenerator psFriendsOneDigit))) = [9]
   \<and> printDigitCount (PrintGenerator psFriendsOneDigit) = 1"
proof -
  have "blockDigits (friendsBlock (printBlocks (PrintGenerator psFriendsOneDigit))) = [9]
      \<and> printDigitCount (PrintGenerator psFriendsOneDigit) = 1"
    by (simp add: PrintGenerator_def psFriendsOneDigit_def noBlocks_def blockDigits_def orElse_def
        orDefault_def)
  then show ?thesis
    using PrintGenerator_generate_raises_iff[of psFriendsOneDigit noDraws noDraws]
    by (simp add: Let_def)
qed

text \<open>
  The claim as stated fails for a supplied \<open>examplesCount\<close> of 0, which is outside
  \<open>[1, 1000]\<close>: the constructor replaces it by 20 and 20 examples are generated.
\<close>

theorem zero_examplesCount_does_not_raise:
  "ps_examplesCount psZeroExamples = Some 0
   \<and> \<not> isl (PrintGenerator_generate (PrintGenerator psZeroExamples) noDraws)
   \<and> length (projr (PrintGenerator_generate (PrintGenerator psZeroExamples) noDraws)) = 20"
  by (simp add: PrintGenerator_generate_def validate_def PrintGenerator_def psZeroExamples_def
      noBlocks_def blockDigits_def blockActive_def hasActiveBlock_def orElse_def orDefault_def)

end
